theory Spec2Isabelle
  imports Main "HOL-Library.Sublist"
begin

section \<open>The log filter script (update\_logging.py)\<close>

subsection \<open>Python string operations\<close>

text \<open>
  Text is a \<^typ>\<open>string\<close>: a list of characters with code points below 256.  A file is
  modelled by the text that reading it in text mode returns and that writing it takes;
  encoding and newline translation of the I/O layer are below this level.
\<close>

text \<open>\<^verbatim>\<open>sub in s\<close> on Python strings.\<close>

fun contains :: "string \<Rightarrow> string \<Rightarrow> bool" where
  "contains sub [] = (sub = [])"
| "contains sub (c # cs) = (prefix sub (c # cs) \<or> contains sub cs)"

text \<open>
  \<^verbatim>\<open>s.replace(old, new)\<close>: occurrences of \<open>old\<close> are found from left to right and do
  not overlap; an empty \<open>old\<close> matches before every character and at the end.
\<close>

function replace :: "string \<Rightarrow> string \<Rightarrow> string \<Rightarrow> string" where
  "replace old new [] = (if old = [] then new else [])"
| "replace old new (c # cs) =
     (if old = [] then new @ c # replace old new cs
      else if prefix old (c # cs) then new @ replace old new (drop (length old) (c # cs))
      else c # replace old new cs)"
  by pat_completeness auto
termination
  by (relation "measure (\<lambda>(old, new, s). length s)") auto

text \<open>\<^verbatim>\<open>sep.join(xs)\<close>.\<close>

fun join :: "string \<Rightarrow> string list \<Rightarrow> string" where
  "join sep [] = []"
| "join sep [x] = x"
| "join sep (x # y # ys) = x @ sep @ join sep (y # ys)"

text \<open>
  \<^verbatim>\<open>s.splitlines()\<close>: the line boundaries below code point 256 are LF, CR, CR LF, VT, FF,
  FS, GS, RS and NEL; the boundaries are dropped and a trailing boundary opens no further
  line.
\<close>

definition is_linebreak :: "char \<Rightarrow> bool" where
  "is_linebreak c \<longleftrightarrow>
     c \<in> set [CHR 0x0A, CHR 0x0D, CHR 0x0B, CHR 0x0C, CHR 0x1C, CHR 0x1D, CHR 0x1E, CHR 0x85]"

fun splitlines_from :: "string \<Rightarrow> string \<Rightarrow> string list" where
  "splitlines_from cur [] = (if cur = [] then [] else [rev cur])"
| "splitlines_from cur (c # cs) =
     (if c = CHR 0x0D \<and> cs \<noteq> [] \<and> hd cs = CHR 0x0A then rev cur # splitlines_from [] (tl cs)
      else if is_linebreak c then rev cur # splitlines_from [] cs
      else splitlines_from (c # cur) cs)"

definition splitlines :: "string \<Rightarrow> string list" where
  "splitlines s = splitlines_from [] s"

subsection \<open>filter\_log\_file\<close>

text \<open>
  The loop over \<^verbatim>\<open>original_lines\<close>: one step takes the lines kept so far and the next
  line, in the order of the source's \<^verbatim>\<open>if\<close>/\<^verbatim>\<open>elif\<close> chain.
\<close>

definition filter_step :: "string list \<Rightarrow> string \<Rightarrow> string list" where
  "filter_step filtered_lines line =
     (if contains '' - INFO - Completed'' line
      then filtered_lines @ [replace '' - INFO - '' '' - WARNING - '' line]
      else if contains '' - WARNING -'' line then filtered_lines @ [line]
      else if contains ''Successfully'' line then filtered_lines @ [line]
      else filtered_lines)"

definition filter_lines :: "string list \<Rightarrow> string list" where
  "filter_lines original_lines = foldl filter_step [] original_lines"

text \<open>
  The file system is a map from paths to the text of the files.  The writes of a run are
  recorded in the order they are made.
\<close>

type_synonym fs = "string \<rightharpoonup> string"

datatype fs_write = Write string string

definition backup_path :: "string \<Rightarrow> string \<Rightarrow> string" where
  "backup_path file_path timestamp = file_path @ ''.'' @ timestamp @ ''.bak''"

text \<open>
  \<^verbatim>\<open>filter_log_file(file_path)\<close>, with the value of
  \<^verbatim>\<open>datetime.now().strftime("%Y%m%d_%H%M%S")\<close> as the parameter \<open>timestamp\<close>.  When the
  file cannot be opened the \<^verbatim>\<open>except\<close> clause prints the error and nothing is written.
  The statistics printed after the second write touch no file (for an empty file the
  percentage raises \<^verbatim>\<open>ZeroDivisionError\<close>, caught by the same clause).
\<close>

definition filter_log_file :: "string \<Rightarrow> string \<Rightarrow> fs \<Rightarrow> fs_write list \<times> fs" where
  "filter_log_file timestamp file_path files =
     (case files file_path of
        None \<Rightarrow> ([], files)
      | Some content \<Rightarrow>
          (let original_lines = splitlines content;
               backup = backup_path file_path timestamp;
               files1 = files(backup \<mapsto> content);
               filtered_lines = filter_lines original_lines;
               filtered_content = join [CHR 0x0A] filtered_lines;
               files2 = files1(file_path \<mapsto> filtered_content)
           in ([Write backup content, Write file_path filtered_content], files2)))"

text \<open>
  The selection in the words of the specification: a line is retained when it carries the
  warning-level marker, contains \<open>Successfully\<close>, or carries the \<open>Completed\<close> marker at
  INFO level; a retained \<open>Completed\<close> line is reclassified from INFO to WARNING.
\<close>

definition retained :: "string \<Rightarrow> bool" where
  "retained line \<longleftrightarrow>
     contains '' - WARNING -'' line \<or> contains ''Successfully'' line
     \<or> contains '' - INFO - Completed'' line"

definition reclassify :: "string \<Rightarrow> string" where
  "reclassify line =
     (if contains '' - INFO - Completed'' line
      then replace '' - INFO - '' '' - WARNING - '' line else line)"

subsection \<open>main\<close>

text \<open>
  What the script sees of the operating system: the working directory, the files and
  their text, the directories, what \<^verbatim>\<open>os.walk(os.getcwd())\<close> yields (triples of a
  directory, its subdirectory names and its file names), and \<^verbatim>\<open>sys.argv\<close>.
\<close>

record os_env =
  cwd :: string
  files :: fs
  dirs :: "string list"
  walk :: "(string \<times> string list \<times> string list) list"
  argv :: "string list"

definition path_exists :: "os_env \<Rightarrow> string \<Rightarrow> bool" where
  "path_exists env p \<longleftrightarrow> files env p \<noteq> None \<or> p \<in> set (dirs env)"

text \<open>\<^verbatim>\<open>os.path.join(a, b)\<close> and \<^verbatim>\<open>os.path.dirname(p)\<close> of \<^verbatim>\<open>posixpath\<close>.\<close>

definition path_join :: "string \<Rightarrow> string \<Rightarrow> string" where
  "path_join a b =
     (if b \<noteq> [] \<and> hd b = CHR ''/'' then b
      else if a = [] \<or> last a = CHR ''/'' then a @ b
      else a @ ''/'' @ b)"

definition dirname :: "string \<Rightarrow> string" where
  "dirname p =
     (let head = rev (dropWhile (\<lambda>c. c \<noteq> CHR ''/'') (rev p))
      in if head \<noteq> [] \<and> head \<noteq> replicate (length head) (CHR ''/'')
         then rev (dropWhile (\<lambda>c. c = CHR ''/'') (rev head)) else head)"

definition walk_found :: "os_env \<Rightarrow> string list" where
  "walk_found env =
     concat (map (\<lambda>(root, ds, fs). map (path_join root) (filter (\<lambda>file. file = ''aws_cleanup.log'') fs))
                 (walk env))"

text \<open>The paths that \<^verbatim>\<open>main\<close> hands to \<^verbatim>\<open>filter_log_file\<close>, in order.\<close>

definition main_targets :: "os_env \<Rightarrow> string list" where
  "main_targets env =
     (let log_file = path_join (cwd env) ''aws_cleanup.log'' in
      if path_exists env log_file then [log_file]
      else
        let parent_dir = dirname (cwd env);
            log_file = path_join parent_dir ''aws_cleanup.log'' in
        if path_exists env log_file then [log_file]
        else
          let log_files = walk_found env in
          if log_files \<noteq> [] then log_files
          else if length (argv env) > 1 \<and> path_exists env (argv env ! 1) then [argv env ! 1]
          else [])"

text \<open>
  \<^verbatim>\<open>main\<close>: the targets are filtered one after the other; \<open>now k\<close> is the timestamp
  of the \<open>k\<close>-th call.
\<close>

fun filter_all :: "(nat \<Rightarrow> string) \<Rightarrow> nat \<Rightarrow> string list \<Rightarrow> fs \<Rightarrow> fs_write list \<times> fs" where
  "filter_all now k [] fs0 = ([], fs0)"
| "filter_all now k (p # ps) fs0 =
     (case filter_log_file (now k) p fs0 of
        (ws, fs1) \<Rightarrow> (case filter_all now (Suc k) ps fs1 of (ws', fs2) \<Rightarrow> (ws @ ws', fs2)))"

definition main :: "os_env \<Rightarrow> (nat \<Rightarrow> string) \<Rightarrow> fs_write list \<times> fs" where
  "main env now = filter_all now 0 (main_targets env) (files env)"

section \<open>The orchestrator (aws\_cleanup\_gui.py, \<open>AWSCleanerGUI.run_cleanup\<close>)\<close>

text \<open>
  Exceptions are values.  The cleaners distinguish botocore's \<^verbatim>\<open>ClientError\<close> from every
  other \<^verbatim>\<open>Exception\<close>; both carry their message.
\<close>

datatype exn = ClientError string | OtherException string

fun str_exn :: "exn \<Rightarrow> string" where
  "str_exn (ClientError msg) = msg"
| "str_exn (OtherException msg) = msg"

text \<open>\<^verbatim>\<open>str(n)\<close> of a natural number, for \<^verbatim>\<open>len(regions)\<close> in a log message.\<close>

fun str_nat :: "nat \<Rightarrow> string" where
  "str_nat n =
     (if n < 10 then [char_of (48 + n)]
      else str_nat (n div 10) @ [char_of (48 + n mod 10)])"

declare str_nat.simps [simp del]

text \<open>
  What the worker thread does that can be observed: the log records it emits at INFO and
  ERROR level, and the calls of a cleaner module's \<^verbatim>\<open>clean\<close>.  \<open>CleanGlobal m d\<close> is
  \<^verbatim>\<open>resource_modules[m].clean(session, dry_run=d)\<close>; \<open>CleanRegion m r d\<close> is
  \<^verbatim>\<open>module.clean(r, session, dry_run=d)\<close> for the module stored under the key \<open>m\<close>.
\<close>

datatype run_event =
    LogInfo string
  | LogError string
  | CleanGlobal string bool
  | CleanRegion string string bool

fun is_clean :: "run_event \<Rightarrow> bool" where
  "is_clean (CleanGlobal m d) = True"
| "is_clean (CleanRegion m r d) = True"
| "is_clean _ = False"

text \<open>
  The surroundings of a run: whether \<^verbatim>\<open>boto3.Session(profile_name=profile)\<close> raises;
  what the region listing gives (the names, or the exception of the client construction
  or of \<^verbatim>\<open>describe_regions\<close>); and whether a call of \<^verbatim>\<open>clean\<close> raises, which may depend
  on everything that happened before it: \<open>clean_raises\<close> is given the events up to and
  including the call.
\<close>

record run_env =
  session_error :: "exn option"
  regions_result :: "exn + string list"
  clean_raises :: "run_event list \<Rightarrow> exn option"

text \<open>
  The keys of the dictionary \<^verbatim>\<open>resource_modules\<close> in insertion order: the source fills it
  by one \<^verbatim>\<open>if name in resources\<close> per module, in this order.
\<close>

definition resource_modules :: "string list \<Rightarrow> string list" where
  "resource_modules resources =
     filter (\<lambda>name. name \<in> set resources)
       [''EC2'', ''S3'', ''Lambda'', ''CloudFormation'', ''RDS'', ''VPC'', ''IAM'']"

text \<open>
  A call of \<^verbatim>\<open>clean\<close> inside \<^verbatim>\<open>try\<close> / \<^verbatim>\<open>except Exception as e\<close>: the call is recorded,
  and when it raises, the handler logs \<open>prefix + str(e)\<close> at ERROR level.
\<close>

definition try_clean :: "run_env \<Rightarrow> run_event \<Rightarrow> string \<Rightarrow> run_event list \<Rightarrow> run_event list" where
  "try_clean env call error_prefix log =
     (case clean_raises env (log @ [call]) of
        None \<Rightarrow> log @ [call]
      | Some e \<Rightarrow> log @ [call, LogError (error_prefix @ str_exn e)])"

definition region_error_prefix :: "string \<Rightarrow> string \<Rightarrow> string" where
  "region_error_prefix resource_name region =
     ''Error cleaning '' @ resource_name @ '' in '' @ region @ '': ''"

text \<open>The body of the inner loop \<^verbatim>\<open>for resource_name, module in resource_modules.items()\<close>.\<close>

definition clean_resource :: "run_env \<Rightarrow> string \<Rightarrow> bool \<Rightarrow> run_event list \<Rightarrow> string \<Rightarrow> run_event list" where
  "clean_resource env region dry_run log resource_name =
     (if resource_name = ''IAM'' then log
      else try_clean env (CleanRegion resource_name region dry_run)
             (region_error_prefix resource_name region)
             (log @ [LogInfo (''Cleaning '' @ resource_name @ '' resources in '' @ region @ ''...'')]))"

text \<open>The body of the outer loop \<^verbatim>\<open>for region in regions\<close>.\<close>

definition clean_region :: "run_env \<Rightarrow> string list \<Rightarrow> bool \<Rightarrow> run_event list \<Rightarrow> string \<Rightarrow> run_event list" where
  "clean_region env modules dry_run log region =
     foldl (clean_resource env region dry_run)
       (log @ [LogInfo (''Processing region: '' @ region)]) modules"

definition regions_of :: "run_env \<Rightarrow> string list" where
  "regions_of env = (case regions_result env of Inl e \<Rightarrow> [] | Inr regions \<Rightarrow> regions)"

text \<open>
  \<^verbatim>\<open>run_cleanup(profile, resources, dry_run)\<close>: the events of the run, in order.  A
  session that cannot be created ends the run after the error record.  A failed region
  listing leaves the list of regions empty.  The outermost \<^verbatim>\<open>except Exception\<close> has
  nothing left to catch: every call that can raise has a handler of its own.
\<close>

definition run_cleanup :: "run_env \<Rightarrow> string \<Rightarrow> string list \<Rightarrow> bool \<Rightarrow> run_event list" where
  "run_cleanup env profile resources dry_run =
     (let log0 = [LogInfo (''Starting cleanup with profile: '' @ profile),
                  LogInfo (''Dry run mode: '' @ (if dry_run then ''True'' else ''False'')),
                  LogInfo (''Selected resources: '' @ join '', '' resources)]
      in case session_error env of
           Some e \<Rightarrow>
             log0 @ [LogError (''Failed to create session with profile '' @ profile @ '': '' @ str_exn e)]
         | None \<Rightarrow>
             (let log1 = log0 @ [LogInfo (''Successfully created session with profile: '' @ profile)];
                  log2 = (case regions_result env of
                            Inr regions \<Rightarrow>
                              log1 @ [LogInfo (''Found '' @ str_nat (length regions) @ '' AWS regions'')]
                          | Inl e \<Rightarrow>
                              log1 @ [LogError (''Failed to get AWS regions: '' @ str_exn e)]);
                  regions = regions_of env;
                  modules = resource_modules resources;
                  log3 = (if ''IAM'' \<in> set resources
                          then try_clean env (CleanGlobal ''IAM'' dry_run)
                                 ''Error cleaning IAM resources: ''
                                 (log2 @ [LogInfo ''Cleaning IAM resources (global service)...''])
                          else log2);
                  log4 = foldl (clean_region env modules dry_run) log3 regions
              in log4 @ [LogInfo ''Cleanup process completed'']))"

text \<open>
  The calls of regional cleaners that a run is expected to make: for each region in
  turn, each selected module other than IAM, in the order of \<^verbatim>\<open>resource_modules\<close>.
\<close>

definition regional_calls :: "string list \<Rightarrow> string list \<Rightarrow> bool \<Rightarrow> run_event list" where
  "regional_calls regions resources dry_run =
     concat (map (\<lambda>region. map (\<lambda>name. CleanRegion name region dry_run)
                              (filter (\<lambda>name. name \<noteq> ''IAM'') (resource_modules resources)))
                 regions)"

text \<open>The text of the error record that the handler around a call of \<^verbatim>\<open>clean\<close> writes.\<close>

fun clean_error_text :: "run_event \<Rightarrow> exn \<Rightarrow> string" where
  "clean_error_text (CleanRegion m r d) e = region_error_prefix m r @ str_exn e"
| "clean_error_text _ e = ''Error cleaning IAM resources: '' @ str_exn e"

text \<open>
  Every call of \<^verbatim>\<open>clean\<close> in the log that raised is followed at once by its error
  record: the check walks the log with the events before the current one at hand.
\<close>

fun failures_logged_from :: "run_env \<Rightarrow> run_event list \<Rightarrow> run_event list \<Rightarrow> bool" where
  "failures_logged_from env pre [] = True"
| "failures_logged_from env pre (ev # post) =
     ((if is_clean ev
       then (case clean_raises env (pre @ [ev]) of
               None \<Rightarrow> True
             | Some e \<Rightarrow> take 1 post = [LogError (clean_error_text ev e)])
       else True)
      \<and> failures_logged_from env (pre @ [ev]) post)"

definition failures_logged :: "run_env \<Rightarrow> run_event list \<Rightarrow> bool" where
  "failures_logged env log = failures_logged_from env [] log"

subsection \<open>Example runs\<close>

text \<open>The profile does not exist: the session cannot be created.\<close>

definition no_session_env :: run_env where
  "no_session_env =
     \<lparr>session_error = Some (OtherException ''The config profile (nobody) could not be found''),
      regions_result = Inr [''us-east-1'', ''eu-west-1''],
      clean_raises = (\<lambda>log. None)\<rparr>"

text \<open>Two regions; every call of a cleaner in \<open>us-east-1\<close> raises, and so does IAM's.\<close>

definition failing_env :: run_env where
  "failing_env =
     \<lparr>session_error = None,
      regions_result = Inr [''us-east-1'', ''eu-west-1''],
      clean_raises = (\<lambda>log. case last log of
                               CleanRegion m r d \<Rightarrow>
                                 if r = ''us-east-1'' then Some (OtherException ''boom'') else None
                             | CleanGlobal m d \<Rightarrow> Some (ClientError ''AccessDenied'')
                             | _ \<Rightarrow> None)\<rparr>"

section \<open>Calls to the provider\<close>

text \<open>
  A call of a boto3 client or resource method is recorded with the method's name and its
  keyword arguments.  A cleaner is modelled by the calls it makes, in order, together
  with how it ends: normally, or with the exception that leaves it.  Log records and
  \<^verbatim>\<open>time.sleep\<close> are not calls to the provider and are left out, and so are the fields
  of a response that only log records read.
\<close>

datatype arg = Str string | Strs "string list" | Flag bool | Filter string "string list"

datatype call = Call string "(string \<times> arg) list"

fun method_of :: "call \<Rightarrow> string" where
  "method_of (Call name args) = name"

type_synonym 'a action = "(exn + 'a) \<times> call list"

definition calls :: "'a action \<Rightarrow> call list" where
  "calls m = snd m"

definition outcome :: "'a action \<Rightarrow> exn + 'a" where
  "outcome m = fst m"

definition ret :: "'a \<Rightarrow> 'a action" where
  "ret x = (Inr x, [])"

text \<open>Sequencing: an exception of the first part skips the second.\<close>

definition and_then :: "'a action \<Rightarrow> ('a \<Rightarrow> 'b action) \<Rightarrow> 'b action" where
  "and_then m f =
     (case outcome m of
        Inl e \<Rightarrow> (Inl e, calls m)
      | Inr x \<Rightarrow> (outcome (f x), calls m @ calls (f x)))"

text \<open>A \<^verbatim>\<open>for\<close> loop whose body is an action.\<close>

fun for_each :: "('a \<Rightarrow> unit action) \<Rightarrow> 'a list \<Rightarrow> unit action" where
  "for_each body [] = ret ()"
| "for_each body (x # xs) = and_then (body x) (\<lambda>_. for_each body xs)"

text \<open>Statements one after the other.\<close>

definition steps :: "unit action list \<Rightarrow> unit action" where
  "steps ms = for_each (\<lambda>m. m) ms"

text \<open>
  \<^verbatim>\<open>try: m except ClientError as e: (log)\<close> ends normally when \<open>m\<close> raises a
  \<^verbatim>\<open>ClientError\<close> and lets every other exception pass;
  \<^verbatim>\<open>try: m except ClientError as e: h\<close> runs the handler \<open>h\<close>;
  \<^verbatim>\<open>try: m except Exception as e: (log)\<close> always ends normally.
\<close>

definition try_client :: "unit action \<Rightarrow> unit action" where
  "try_client m =
     (case outcome m of Inl (ClientError msg) \<Rightarrow> (Inr (), calls m) | _ \<Rightarrow> m)"

definition try_client_handle :: "unit action \<Rightarrow> unit action \<Rightarrow> unit action" where
  "try_client_handle m h =
     (case outcome m of Inl (ClientError msg) \<Rightarrow> (outcome h, calls m @ calls h) | _ \<Rightarrow> m)"

definition try_all :: "unit action \<Rightarrow> unit action" where
  "try_all m = (Inr (), calls m)"

text \<open>
  A call that reads: the provider's answer is the response or an exception.  A call that
  changes something: the provider's answer, \<open>None\<close> for success, is a function of the
  call.  The answers are fixed for the run of one cleaner.
\<close>

definition request :: "call \<Rightarrow> exn + 'a \<Rightarrow> 'a action" where
  "request c response = (response, [c])"

definition mutate :: "(call \<Rightarrow> exn option) \<Rightarrow> call \<Rightarrow> unit action" where
  "mutate answer c = ((case answer c of None \<Rightarrow> Inr () | Some e \<Rightarrow> Inl e), [c])"

text \<open>
  A paginator, or a boto3 resource collection: the items come page by page, one call per
  page, and the body runs on the items of a page before the next page is fetched.  The
  answer is the pages that arrive and, possibly, the exception of the fetch after them.
  A listing that succeeds has at least one page.
\<close>

type_synonym 'a pages = "'a list list \<times> exn option"

fun paginate_from :: "call \<Rightarrow> 'a list list \<Rightarrow> exn option \<Rightarrow> ('a \<Rightarrow> unit action) \<Rightarrow> unit action" where
  "paginate_from c [] failure body =
     (case failure of None \<Rightarrow> ret () | Some e \<Rightarrow> request c (Inl e))"
| "paginate_from c (page # rest) failure body =
     and_then (request c (Inr page))
       (\<lambda>items. and_then (for_each body items) (\<lambda>_. paginate_from c rest failure body))"

definition paginate :: "call \<Rightarrow> 'a pages \<Rightarrow> ('a \<Rightarrow> unit action) \<Rightarrow> unit action" where
  "paginate c answer body = paginate_from c (fst answer) (snd answer) body"

definition items :: "'a pages \<Rightarrow> 'a list" where
  "items answer = concat (fst answer)"

text \<open>
  The methods that only read are the \<^verbatim>\<open>describe_\<close>, \<^verbatim>\<open>list_\<close> and \<^verbatim>\<open>get_\<close> methods of
  the clients and the iteration of the resource collections \<^verbatim>\<open>instances.all()\<close> and
  \<^verbatim>\<open>volumes.all()\<close>.  Every other method (delete, terminate, detach, disassociate,
  release, deregister, modify, remove, deactivate) changes something.
\<close>

definition is_read_method :: "string \<Rightarrow> bool" where
  "is_read_method name \<longleftrightarrow>
     prefix ''describe_'' name \<or> prefix ''list_'' name \<or> prefix ''get_'' name
     \<or> name = ''instances.all'' \<or> name = ''volumes.all''"

definition is_mutating :: "call \<Rightarrow> bool" where
  "is_mutating c \<longleftrightarrow> \<not> is_read_method (method_of c)"

text \<open>Python's truth value of an optional string: \<^verbatim>\<open>None\<close> and \<^verbatim>\<open>''\<close> are false.\<close>

fun truthy :: "string option \<Rightarrow> bool" where
  "truthy None = False"
| "truthy (Some s) = (s \<noteq> [])"

text \<open>The items of a listing that is not paginated; none when the listing failed.\<close>

definition listed :: "exn + 'a list \<Rightarrow> 'a list" where
  "listed answer = (case answer of Inl e \<Rightarrow> [] | Inr xs \<Rightarrow> xs)"

text \<open>
  Every call of the method \<open>name\<close> among \<open>cs\<close> is the call \<open>mk x\<close> for an item \<open>x\<close> of
  the listing that satisfies \<open>ok\<close>.
\<close>

definition issued_only_for ::
  "string \<Rightarrow> ('a \<Rightarrow> call) \<Rightarrow> ('a \<Rightarrow> bool) \<Rightarrow> 'a list \<Rightarrow> call list \<Rightarrow> bool" where
  "issued_only_for name mk ok listing cs \<longleftrightarrow>
     (\<forall>c \<in> set cs. method_of c = name \<longrightarrow> (\<exists>x \<in> set listing. c = mk x \<and> ok x))"

section \<open>The VPC cleaner (cleaner/vpc.py)\<close>

subsection \<open>Responses\<close>

record nat_gateway =
  NatGatewayId :: string
  nat_State :: string

record network_interface =
  NetworkInterfaceId :: string
  eni_Status :: string

record igw_attachment =
  igwa_VpcId :: "string option"

record internet_gateway =
  InternetGatewayId :: string
  igw_Attachments :: "igw_attachment list"

record vpn_connection =
  VpnConnectionId :: string
  vpn_State :: string

record vgw_attachment =
  vgwa_VpcId :: "string option"
  vgwa_State :: "string option"

record vpn_gateway =
  VpnGatewayId :: string
  vgw_State :: string
  VpcAttachments :: "vgw_attachment list"

record tgw_attachment =
  TransitGatewayAttachmentId :: string
  tgwa_State :: string

record transit_gateway =
  TransitGatewayId :: string
  tgw_State :: string

record vpc =
  VpcId :: string
  vpc_IsDefault :: bool

record rt_association =
  rta_Main :: bool
  rta_SubnetId :: "string option"
  RouteTableAssociationId :: string

record route_table =
  RouteTableId :: string
  rt_Associations :: "rt_association list"

record subnet =
  SubnetId :: string

record security_group =
  GroupId :: string
  GroupName :: string

record network_acl =
  NetworkAclId :: string
  acl_IsDefault :: bool

record vpc_endpoint =
  VpcEndpointId :: string

record vpc_peering =
  VpcPeeringConnectionId :: string
  peering_StatusCode :: "string option"

text \<open>
  The provider as the VPC cleaner sees it in one region: the answer to each listing (the
  listings inside the loop over the VPCs take the VPC's identifier), and the answer to
  each call that changes something.
\<close>

record vpc_provider =
  describe_nat_gateways :: "exn + nat_gateway list"
  describe_network_interfaces :: "exn + network_interface list"
  describe_internet_gateways :: "exn + internet_gateway list"
  describe_vpn_connections :: "exn + vpn_connection list"
  describe_vpn_gateways :: "exn + vpn_gateway list"
  describe_transit_gateway_attachments :: "exn + tgw_attachment list"
  describe_transit_gateways :: "exn + transit_gateway list"
  describe_vpcs :: "exn + vpc list"
  describe_route_tables :: "string \<Rightarrow> exn + route_table list"
  describe_subnets :: "string \<Rightarrow> exn + subnet list"
  describe_security_groups :: "string \<Rightarrow> exn + security_group list"
  describe_network_acls :: "string \<Rightarrow> exn + network_acl list"
  describe_vpc_endpoints :: "string \<Rightarrow> exn + vpc_endpoint list"
  describe_vpc_peering_connections :: "exn + vpc_peering list"
  vpc_answer :: "call \<Rightarrow> exn option"

definition vpc_filter :: "string \<Rightarrow> (string \<times> arg) list" where
  "vpc_filter vpc_id = [(''Filters'', Filter ''vpc-id'' [vpc_id])]"

subsection \<open>The steps of \<^verbatim>\<open>clean\<close>\<close>

text \<open>1. NAT gateways.\<close>

definition clean_nat_gateways :: "vpc_provider \<Rightarrow> bool \<Rightarrow> unit action" where
  "clean_nat_gateways p dry_run =
     try_client
       (and_then (request (Call ''describe_nat_gateways'' []) (describe_nat_gateways p))
          (for_each (\<lambda>nat.
             if nat_State nat \<in> set [''deleting'', ''deleted''] then ret ()
             else if \<not> dry_run
               then try_client (mutate (vpc_answer p)
                      (Call ''delete_nat_gateway'' [(''NatGatewayId'', Str (NatGatewayId nat))]))
               else ret ())))"

text \<open>2. Network interfaces.\<close>

definition clean_network_interfaces :: "vpc_provider \<Rightarrow> bool \<Rightarrow> unit action" where
  "clean_network_interfaces p dry_run =
     try_client
       (and_then (request (Call ''describe_network_interfaces'' []) (describe_network_interfaces p))
          (for_each (\<lambda>eni.
             if eni_Status eni \<in> set [''in-use'', ''detaching'', ''deleting''] then ret ()
             else if \<not> dry_run
               then try_client (mutate (vpc_answer p)
                      (Call ''delete_network_interface''
                         [(''NetworkInterfaceId'', Str (NetworkInterfaceId eni))]))
               else ret ())))"

text \<open>3. Internet gateways: detached from every VPC, then deleted.\<close>

definition clean_internet_gateways :: "vpc_provider \<Rightarrow> bool \<Rightarrow> unit action" where
  "clean_internet_gateways p dry_run =
     try_client
       (and_then (request (Call ''describe_internet_gateways'' []) (describe_internet_gateways p))
          (for_each (\<lambda>igw.
             if \<not> dry_run
             then steps
               [for_each (\<lambda>attachment.
                  case igwa_VpcId attachment of
                    None \<Rightarrow> ret ()
                  | Some vpc_id \<Rightarrow>
                      if vpc_id \<noteq> []
                      then try_client (mutate (vpc_answer p)
                             (Call ''detach_internet_gateway''
                                [(''InternetGatewayId'', Str (InternetGatewayId igw)),
                                 (''VpcId'', Str vpc_id)]))
                      else ret ())
                  (igw_Attachments igw),
                try_client (mutate (vpc_answer p)
                  (Call ''delete_internet_gateway''
                     [(''InternetGatewayId'', Str (InternetGatewayId igw))]))]
             else ret ())))"

text \<open>4. VPN connections.\<close>

definition clean_vpn_connections :: "vpc_provider \<Rightarrow> bool \<Rightarrow> unit action" where
  "clean_vpn_connections p dry_run =
     try_client
       (and_then (request (Call ''describe_vpn_connections'' []) (describe_vpn_connections p))
          (for_each (\<lambda>vpn.
             if vpn_State vpn \<in> set [''deleting'', ''deleted''] then ret ()
             else if \<not> dry_run
               then try_client (mutate (vpc_answer p)
                      (Call ''delete_vpn_connection''
                         [(''VpnConnectionId'', Str (VpnConnectionId vpn))]))
               else ret ())))"

text \<open>5. VPN gateways: detached from every VPC they are still attached to, then deleted.\<close>

definition clean_vpn_gateways :: "vpc_provider \<Rightarrow> bool \<Rightarrow> unit action" where
  "clean_vpn_gateways p dry_run =
     try_client
       (and_then (request (Call ''describe_vpn_gateways'' []) (describe_vpn_gateways p))
          (for_each (\<lambda>vgw.
             if vgw_State vgw \<in> set [''deleting'', ''deleted''] then ret ()
             else if \<not> dry_run
             then steps
               [for_each (\<lambda>attachment.
                  case vgwa_VpcId attachment of
                    None \<Rightarrow> ret ()
                  | Some vpc_id \<Rightarrow>
                      if vpc_id \<noteq> []
                         \<and> vgwa_State attachment \<notin> set [Some ''detached'', Some ''detaching'']
                      then try_client (mutate (vpc_answer p)
                             (Call ''detach_vpn_gateway''
                                [(''VpnGatewayId'', Str (VpnGatewayId vgw)), (''VpcId'', Str vpc_id)]))
                      else ret ())
                  (VpcAttachments vgw),
                try_client (mutate (vpc_answer p)
                  (Call ''delete_vpn_gateway'' [(''VpnGatewayId'', Str (VpnGatewayId vgw))]))]
             else ret ())))"

text \<open>6. Transit gateway attachments.\<close>

definition clean_tgw_attachments :: "vpc_provider \<Rightarrow> bool \<Rightarrow> unit action" where
  "clean_tgw_attachments p dry_run =
     try_client
       (and_then (request (Call ''describe_transit_gateway_attachments'' [])
                    (describe_transit_gateway_attachments p))
          (for_each (\<lambda>attachment.
             if tgwa_State attachment \<in> set [''deleting'', ''deleted''] then ret ()
             else if \<not> dry_run
               then try_client (mutate (vpc_answer p)
                      (Call ''delete_transit_gateway_vpc_attachment''
                         [(''TransitGatewayAttachmentId'',
                           Str (TransitGatewayAttachmentId attachment))]))
               else ret ())))"

text \<open>7. Transit gateways.\<close>

definition clean_transit_gateways :: "vpc_provider \<Rightarrow> bool \<Rightarrow> unit action" where
  "clean_transit_gateways p dry_run =
     try_client
       (and_then (request (Call ''describe_transit_gateways'' []) (describe_transit_gateways p))
          (for_each (\<lambda>tgw.
             if tgw_State tgw \<in> set [''deleting'', ''deleted''] then ret ()
             else if \<not> dry_run
               then try_client (mutate (vpc_answer p)
                      (Call ''delete_transit_gateway''
                         [(''TransitGatewayId'', Str (TransitGatewayId tgw))]))
               else ret ())))"

text \<open>
  8 and 9. The route tables of one VPC, the main one apart: the subnets are
  disassociated, then the table is deleted.
\<close>

definition clean_route_tables :: "vpc_provider \<Rightarrow> bool \<Rightarrow> string \<Rightarrow> unit action" where
  "clean_route_tables p dry_run vpc_id =
     try_client
       (and_then (request (Call ''describe_route_tables'' (vpc_filter vpc_id))
                    (describe_route_tables p vpc_id))
          (for_each (\<lambda>rt.
             if list_ex rta_Main (rt_Associations rt) then ret ()
             else if \<not> dry_run
             then steps
               [for_each (\<lambda>association.
                  if rta_SubnetId association \<noteq> None
                  then try_client (mutate (vpc_answer p)
                         (Call ''disassociate_route_table''
                            [(''AssociationId'', Str (RouteTableAssociationId association))]))
                  else ret ())
                  (rt_Associations rt),
                try_client (mutate (vpc_answer p)
                  (Call ''delete_route_table'' [(''RouteTableId'', Str (RouteTableId rt))]))]
             else ret ())))"

text \<open>10. The subnets of one VPC.\<close>

definition clean_subnets :: "vpc_provider \<Rightarrow> bool \<Rightarrow> string \<Rightarrow> unit action" where
  "clean_subnets p dry_run vpc_id =
     try_client
       (and_then (request (Call ''describe_subnets'' (vpc_filter vpc_id)) (describe_subnets p vpc_id))
          (for_each (\<lambda>subnet.
             if \<not> dry_run
             then try_client (mutate (vpc_answer p)
                    (Call ''delete_subnet'' [(''SubnetId'', Str (SubnetId subnet))]))
             else ret ())))"

text \<open>11. The security groups of one VPC, the one named \<open>default\<close> apart.\<close>

definition clean_security_groups :: "vpc_provider \<Rightarrow> bool \<Rightarrow> string \<Rightarrow> unit action" where
  "clean_security_groups p dry_run vpc_id =
     try_client
       (and_then (request (Call ''describe_security_groups'' (vpc_filter vpc_id))
                    (describe_security_groups p vpc_id))
          (for_each (\<lambda>sg.
             if GroupName sg = ''default'' then ret ()
             else if \<not> dry_run
               then try_client (mutate (vpc_answer p)
                      (Call ''delete_security_group'' [(''GroupId'', Str (GroupId sg))]))
               else ret ())))"

text \<open>12. The network ACLs of one VPC, the default one apart.\<close>

definition clean_network_acls :: "vpc_provider \<Rightarrow> bool \<Rightarrow> string \<Rightarrow> unit action" where
  "clean_network_acls p dry_run vpc_id =
     try_client
       (and_then (request (Call ''describe_network_acls'' (vpc_filter vpc_id))
                    (describe_network_acls p vpc_id))
          (for_each (\<lambda>acl.
             if acl_IsDefault acl then ret ()
             else if \<not> dry_run
               then try_client (mutate (vpc_answer p)
                      (Call ''delete_network_acl'' [(''NetworkAclId'', Str (NetworkAclId acl))]))
               else ret ())))"

text \<open>13. The endpoints of one VPC.\<close>

definition clean_vpc_endpoints :: "vpc_provider \<Rightarrow> bool \<Rightarrow> string \<Rightarrow> unit action" where
  "clean_vpc_endpoints p dry_run vpc_id =
     try_client
       (and_then (request (Call ''describe_vpc_endpoints'' (vpc_filter vpc_id))
                    (describe_vpc_endpoints p vpc_id))
          (for_each (\<lambda>endpoint.
             if \<not> dry_run
             then try_client (mutate (vpc_answer p)
                    (Call ''delete_vpc_endpoints''
                       [(''VpcEndpointIds'', Strs [VpcEndpointId endpoint])]))
             else ret ())))"

text \<open>The body of the first loop over the VPCs.\<close>

definition clean_vpc_resources :: "vpc_provider \<Rightarrow> bool \<Rightarrow> vpc \<Rightarrow> unit action" where
  "clean_vpc_resources p dry_run v =
     steps [clean_route_tables p dry_run (VpcId v),
            clean_subnets p dry_run (VpcId v),
            clean_security_groups p dry_run (VpcId v),
            clean_network_acls p dry_run (VpcId v),
            clean_vpc_endpoints p dry_run (VpcId v)]"

text \<open>14. Peering connections; a missing status code reads \<open>unknown\<close>.\<close>

definition peering_status :: "vpc_peering \<Rightarrow> string" where
  "peering_status peering =
     (case peering_StatusCode peering of None \<Rightarrow> ''unknown'' | Some code \<Rightarrow> code)"

definition clean_vpc_peerings :: "vpc_provider \<Rightarrow> bool \<Rightarrow> unit action" where
  "clean_vpc_peerings p dry_run =
     try_client
       (and_then (request (Call ''describe_vpc_peering_connections'' [])
                    (describe_vpc_peering_connections p))
          (for_each (\<lambda>peering.
             if peering_status peering \<in> set [''deleted'', ''rejected'', ''failed'', ''expired'']
             then ret ()
             else if \<not> dry_run
               then try_client (mutate (vpc_answer p)
                      (Call ''delete_vpc_peering_connection''
                         [(''VpcPeeringConnectionId'', Str (VpcPeeringConnectionId peering))]))
               else ret ())))"

text \<open>15. The VPCs themselves, the default one apart.\<close>

definition delete_vpcs :: "vpc_provider \<Rightarrow> bool \<Rightarrow> vpc list \<Rightarrow> unit action" where
  "delete_vpcs p dry_run vpcs =
     for_each (\<lambda>v.
        if dry_run then ret ()
        else if vpc_IsDefault v then ret ()
        else try_client (mutate (vpc_answer p) (Call ''delete_vpc'' [(''VpcId'', Str (VpcId v))])))
       vpcs"

text \<open>
  The part of \<^verbatim>\<open>clean\<close> after step 7: the VPCs are listed; with none the function
  returns; otherwise the resources of each VPC are cleaned, then the peering connections,
  then the VPCs.
\<close>

definition clean_vpcs :: "vpc_provider \<Rightarrow> bool \<Rightarrow> unit action" where
  "clean_vpcs p dry_run =
     try_client
       (and_then (request (Call ''describe_vpcs'' []) (describe_vpcs p))
          (\<lambda>vpcs.
             if vpcs = [] then ret ()
             else steps [for_each (clean_vpc_resources p dry_run) vpcs,
                         clean_vpc_peerings p dry_run,
                         delete_vpcs p dry_run vpcs]))"

text \<open>
  \<^verbatim>\<open>clean(region, session, dry_run)\<close> of the VPC module, after the client is made: the
  whole body is inside \<^verbatim>\<open>try\<close> / \<^verbatim>\<open>except Exception\<close>.
\<close>

definition vpc_body :: "vpc_provider \<Rightarrow> bool \<Rightarrow> unit action" where
  "vpc_body p dry_run =
       (steps [clean_nat_gateways p dry_run,
               clean_network_interfaces p dry_run,
               clean_internet_gateways p dry_run,
               clean_vpn_connections p dry_run,
               clean_vpn_gateways p dry_run,
               clean_tgw_attachments p dry_run,
               clean_transit_gateways p dry_run,
               clean_vpcs p dry_run])"

definition vpc_clean :: "vpc_provider \<Rightarrow> bool \<Rightarrow> unit action" where
  "vpc_clean p dry_run = try_all (vpc_body p dry_run)"

subsection \<open>The order of the steps\<close>

text \<open>
  The steps of the VPC cleaner: the fifteen of the comment at the head of \<^verbatim>\<open>clean\<close>,
  with the subnet associations of a route table (8) counted with the route tables (9),
  as the code processes them table by table, and the listing of the VPCs, which comes
  before the loop over them.
\<close>

datatype vpc_step =
    NatGateways | NetworkInterfaces | InternetGateways | VpnConnections | VpnGateways
  | TgwAttachments | TransitGateways | VpcListing | RouteTables | Subnets | SecurityGroups
  | NetworkAcls | VpcEndpoints | PeeringConnections | Vpcs | OtherStep

definition step_table :: "(string \<times> vpc_step) list" where
  "step_table =
     [(''describe_nat_gateways'', NatGateways), (''delete_nat_gateway'', NatGateways),
      (''describe_network_interfaces'', NetworkInterfaces),
      (''delete_network_interface'', NetworkInterfaces),
      (''describe_internet_gateways'', InternetGateways),
      (''detach_internet_gateway'', InternetGateways),
      (''delete_internet_gateway'', InternetGateways),
      (''describe_vpn_connections'', VpnConnections), (''delete_vpn_connection'', VpnConnections),
      (''describe_vpn_gateways'', VpnGateways), (''detach_vpn_gateway'', VpnGateways),
      (''delete_vpn_gateway'', VpnGateways),
      (''describe_transit_gateway_attachments'', TgwAttachments),
      (''delete_transit_gateway_vpc_attachment'', TgwAttachments),
      (''describe_transit_gateways'', TransitGateways),
      (''delete_transit_gateway'', TransitGateways),
      (''describe_vpcs'', VpcListing),
      (''describe_route_tables'', RouteTables), (''disassociate_route_table'', RouteTables),
      (''delete_route_table'', RouteTables),
      (''describe_subnets'', Subnets), (''delete_subnet'', Subnets),
      (''describe_security_groups'', SecurityGroups), (''delete_security_group'', SecurityGroups),
      (''describe_network_acls'', NetworkAcls), (''delete_network_acl'', NetworkAcls),
      (''describe_vpc_endpoints'', VpcEndpoints), (''delete_vpc_endpoints'', VpcEndpoints),
      (''describe_vpc_peering_connections'', PeeringConnections),
      (''delete_vpc_peering_connection'', PeeringConnections),
      (''delete_vpc'', Vpcs)]"

definition step_of :: "call \<Rightarrow> vpc_step" where
  "step_of c = (case map_of step_table (method_of c) of None \<Rightarrow> OtherStep | Some s \<Rightarrow> s)"

text \<open>The steps in the order in which a run visits them: one entry per run of calls of a step.\<close>

definition processing_order :: "call list \<Rightarrow> vpc_step list" where
  "processing_order cs = remdups_adj (map step_of cs)"

text \<open>The order the specification declares, each resource type once.\<close>

definition declared_order :: "vpc_step list" where
  "declared_order =
     [NatGateways, NetworkInterfaces, InternetGateways, VpnConnections, VpnGateways,
      TgwAttachments, TransitGateways, RouteTables, Subnets, SecurityGroups, NetworkAcls,
      VpcEndpoints, PeeringConnections, Vpcs]"

text \<open>
  The order the code follows: the seven regional steps and the listing of the VPCs; one
  block per listed VPC; the peering connections; the VPCs.
\<close>

definition first_steps :: "vpc_step list" where
  "first_steps =
     [NatGateways, NetworkInterfaces, InternetGateways, VpnConnections, VpnGateways,
      TgwAttachments, TransitGateways, VpcListing]"

definition vpc_block :: "vpc_step list" where
  "vpc_block = [RouteTables, Subnets, SecurityGroups, NetworkAcls, VpcEndpoints]"

definition vpc_order :: "vpc list \<Rightarrow> vpc_step list" where
  "vpc_order vpcs = first_steps @ concat (map (\<lambda>v. vpc_block) vpcs) @ [PeeringConnections, Vpcs]"

text \<open>
  How far a run gets when no exception reaches the outermost handler: with a failed or
  empty listing of the VPCs nothing follows the listing, and the last step issues calls
  only in live mode and only when some VPC is not the default one.
\<close>

definition expected_order :: "vpc_provider \<Rightarrow> bool \<Rightarrow> vpc_step list" where
  "expected_order p dry_run =
     first_steps @
     (case describe_vpcs p of
        Inl e \<Rightarrow> []
      | Inr vpcs \<Rightarrow>
          if vpcs = [] then []
          else concat (map (\<lambda>v. vpc_block) vpcs) @ [PeeringConnections]
               @ (if \<not> dry_run \<and> list_ex (\<lambda>v. \<not> vpc_IsDefault v) vpcs then [Vpcs] else []))"

text \<open>
  An action follows an order when its calls visit exactly the steps of the order if it
  ends normally, and an initial part of them if it ends with an exception.
\<close>

definition follows_order :: "unit action \<Rightarrow> vpc_step list \<Rightarrow> bool" where
  "follows_order m order =
     (case outcome m of
        Inr u \<Rightarrow> processing_order (calls m) = order
      | Inl e \<Rightarrow> prefix (processing_order (calls m)) order)"

text \<open>No \<^verbatim>\<open>ClientError\<close> leaves the action.\<close>

definition contains_client_errors :: "unit action \<Rightarrow> bool" where
  "contains_client_errors m = (case outcome m of Inl (ClientError msg) \<Rightarrow> False | _ \<Rightarrow> True)"

section \<open>The EC2 cleaner (cleaner/ec2.py)\<close>

record ec2_instance =
  instance_id :: string
  instance_state_name :: string

record address =
  AllocationId :: "string option"

record volume =
  volume_id :: string
  volume_state :: string

record snapshot =
  SnapshotId :: string

record ebs =
  ebs_SnapshotId :: "string option"

record block_device_mapping =
  Ebs :: "ebs option"

record image =
  ImageId :: string
  BlockDeviceMappings :: "block_device_mapping list"

text \<open>
  The provider as the EC2 cleaner sees it.  The account identifier is what
  \<^verbatim>\<open>get_caller_identity().get('Account')\<close> gives; the snapshots and images are listed
  for that owner.
\<close>

record ec2_provider =
  instances_all :: "ec2_instance pages"
  ec2_describe_security_groups :: "exn + security_group list"
  describe_addresses :: "exn + address list"
  volumes_all :: "volume pages"
  get_caller_identity :: "exn + string"
  describe_snapshots :: "string \<Rightarrow> exn + snapshot list"
  describe_images :: "string \<Rightarrow> exn + image list"
  ec2_answer :: "call \<Rightarrow> exn option"

text \<open>1. Instances, those already terminated or shutting down apart.\<close>

definition terminate_instances :: "ec2_provider \<Rightarrow> bool \<Rightarrow> unit action" where
  "terminate_instances p dry_run =
     try_client
       (paginate (Call ''instances.all'' []) (instances_all p)
          (\<lambda>instance.
             if instance_state_name instance \<in> set [''terminated'', ''shutting-down''] then ret ()
             else if \<not> dry_run
               then try_client (mutate (ec2_answer p)
                      (Call ''instance.terminate'' [(''id'', Str (instance_id instance))]))
               else ret ()))"

text \<open>2. Security groups, those named \<open>default\<close> apart.\<close>

definition delete_security_groups :: "ec2_provider \<Rightarrow> bool \<Rightarrow> unit action" where
  "delete_security_groups p dry_run =
     try_client
       (and_then (request (Call ''describe_security_groups'' []) (ec2_describe_security_groups p))
          (\<lambda>security_groups.
             for_each (\<lambda>sg.
                if \<not> dry_run
                then try_client (mutate (ec2_answer p)
                       (Call ''delete_security_group'' [(''GroupId'', Str (GroupId sg))]))
                else ret ())
               (filter (\<lambda>sg. GroupName sg \<noteq> ''default'') security_groups)))"

text \<open>3. Elastic IPs that have an allocation identifier.\<close>

definition release_addresses :: "ec2_provider \<Rightarrow> bool \<Rightarrow> unit action" where
  "release_addresses p dry_run =
     try_client
       (and_then (request (Call ''describe_addresses'' []) (describe_addresses p))
          (for_each (\<lambda>eip.
             case AllocationId eip of
               None \<Rightarrow> ret ()
             | Some allocation_id \<Rightarrow>
                 if allocation_id = [] then ret ()
                 else if \<not> dry_run
                   then try_client (mutate (ec2_answer p)
                          (Call ''release_address'' [(''AllocationId'', Str allocation_id)]))
                   else ret ())))"

text \<open>4. Volumes that are not in use.\<close>

definition delete_volumes :: "ec2_provider \<Rightarrow> bool \<Rightarrow> unit action" where
  "delete_volumes p dry_run =
     try_client
       (paginate (Call ''volumes.all'' []) (volumes_all p)
          (\<lambda>volume.
             if volume_state volume = ''in-use'' then ret ()
             else if \<not> dry_run
               then try_client (mutate (ec2_answer p)
                      (Call ''volume.delete'' [(''id'', Str (volume_id volume))]))
               else ret ()))"

text \<open>5. Snapshots owned by the account.\<close>

definition delete_snapshots :: "ec2_provider \<Rightarrow> bool \<Rightarrow> unit action" where
  "delete_snapshots p dry_run =
     try_client
       (and_then (request (Call ''get_caller_identity'' []) (get_caller_identity p))
          (\<lambda>account_id.
             and_then (request (Call ''describe_snapshots'' [(''OwnerIds'', Strs [account_id])])
                         (describe_snapshots p account_id))
               (for_each (\<lambda>snapshot.
                  if \<not> dry_run
                  then try_client (mutate (ec2_answer p)
                         (Call ''delete_snapshot'' [(''SnapshotId'', Str (SnapshotId snapshot))]))
                  else ret ()))))"

text \<open>6. Images owned by the account: deregistered, then their snapshots deleted.\<close>

definition delete_image_snapshot :: "ec2_provider \<Rightarrow> block_device_mapping \<Rightarrow> unit action" where
  "delete_image_snapshot p bdm =
     (case Ebs bdm of
        None \<Rightarrow> ret ()
      | Some e \<Rightarrow>
          (case ebs_SnapshotId e of
             None \<Rightarrow> ret ()
           | Some snapshot_id \<Rightarrow>
               try_client (mutate (ec2_answer p)
                 (Call ''delete_snapshot'' [(''SnapshotId'', Str snapshot_id)]))))"

definition deregister_images :: "ec2_provider \<Rightarrow> bool \<Rightarrow> unit action" where
  "deregister_images p dry_run =
     try_client
       (and_then (request (Call ''get_caller_identity'' []) (get_caller_identity p))
          (\<lambda>account_id.
             and_then (request (Call ''describe_images'' [(''Owners'', Strs [account_id])])
                         (describe_images p account_id))
               (for_each (\<lambda>image.
                  if \<not> dry_run
                  then try_client
                         (and_then (mutate (ec2_answer p)
                                      (Call ''deregister_image'' [(''ImageId'', Str (ImageId image))]))
                            (\<lambda>_. for_each (delete_image_snapshot p) (BlockDeviceMappings image)))
                  else ret ()))))"

text \<open>
  \<^verbatim>\<open>clean(region, session, dry_run)\<close> of the EC2 module, after the client and the
  resource are made.  Each step catches \<^verbatim>\<open>ClientError\<close> only; another exception leaves
  the function.
\<close>

definition ec2_clean :: "ec2_provider \<Rightarrow> bool \<Rightarrow> unit action" where
  "ec2_clean p dry_run =
     steps [terminate_instances p dry_run,
            delete_security_groups p dry_run,
            release_addresses p dry_run,
            delete_volumes p dry_run,
            delete_snapshots p dry_run,
            deregister_images p dry_run]"

text \<open>
  What the account owns, as the last two steps see it, and the snapshot that a block
  device mapping of an image names, if any.
\<close>

definition owned_snapshots :: "ec2_provider \<Rightarrow> snapshot list" where
  "owned_snapshots p =
     (case get_caller_identity p of
        Inl e \<Rightarrow> []
      | Inr account_id \<Rightarrow> listed (describe_snapshots p account_id))"

definition owned_images :: "ec2_provider \<Rightarrow> image list" where
  "owned_images p =
     (case get_caller_identity p of
        Inl e \<Rightarrow> []
      | Inr account_id \<Rightarrow> listed (describe_images p account_id))"

definition bdm_snapshot_id :: "block_device_mapping \<Rightarrow> string option" where
  "bdm_snapshot_id bdm = (case Ebs bdm of None \<Rightarrow> None | Some e \<Rightarrow> ebs_SnapshotId e)"

definition image_snapshot_ids :: "image \<Rightarrow> string option list" where
  "image_snapshot_ids img = map bdm_snapshot_id (BlockDeviceMappings img)"

section \<open>The S3 cleaner (cleaner/s3.py)\<close>

text \<open>
  The provider as the S3 cleaner sees it: the bucket names, and for a bucket its
  \<^verbatim>\<open>LocationConstraint\<close>, the \<^verbatim>\<open>Status\<close> of its versioning, and the answer about its
  object lock (which only a log record reads).
\<close>

record s3_provider =
  list_buckets :: "exn + string list"
  get_bucket_location :: "string \<Rightarrow> exn + string option"
  get_bucket_versioning :: "string \<Rightarrow> exn + string option"
  get_object_lock_configuration :: "string \<Rightarrow> exn + unit"
  s3_answer :: "call \<Rightarrow> exn option"

text \<open>A loop that builds a value: the body takes the value so far and the next item.\<close>

fun fold_each :: "('s \<Rightarrow> 'a \<Rightarrow> 's action) \<Rightarrow> 's \<Rightarrow> 'a list \<Rightarrow> 's action" where
  "fold_each body s [] = ret s"
| "fold_each body s (x # xs) = and_then (body s x) (\<lambda>s'. fold_each body s' xs)"

text \<open>Like \<open>try_client\<close>, for a block that computes a value: \<open>d\<close> is the handler's value.\<close>

definition try_client_value :: "'a action \<Rightarrow> 'a \<Rightarrow> 'a action" where
  "try_client_value m d =
     (case outcome m of Inl (ClientError msg) \<Rightarrow> (Inr d, calls m) | _ \<Rightarrow> m)"

text \<open>The first loop: the names of the buckets whose region is the one being cleaned.\<close>

definition bucket_in_region :: "s3_provider \<Rightarrow> string \<Rightarrow> string list \<Rightarrow> string \<Rightarrow> string list action" where
  "bucket_in_region p region region_buckets bucket_name =
     try_client_value
       (and_then (request (Call ''get_bucket_location'' [(''Bucket'', Str bucket_name)])
                    (get_bucket_location p bucket_name))
          (\<lambda>location.
             let bucket_region =
                   (case location of
                      None \<Rightarrow> ''us-east-1''
                    | Some constraint \<Rightarrow> if constraint = [] then ''us-east-1'' else constraint)
             in if bucket_region = region then ret (region_buckets @ [bucket_name])
                else ret region_buckets))
       region_buckets"

text \<open>The versioning check of the second loop.\<close>

definition bucket_is_versioned :: "s3_provider \<Rightarrow> string \<Rightarrow> bool action" where
  "bucket_is_versioned p bucket_name =
     try_client_value
       (and_then (request (Call ''get_bucket_versioning'' [(''Bucket'', Str bucket_name)])
                    (get_bucket_versioning p bucket_name))
          (\<lambda>status. ret (status = Some ''Enabled'' \<or> status = Some ''Suspended'')))
       False"

text \<open>The live branch of the second loop: empty the bucket, then delete it.\<close>

definition empty_and_delete_bucket :: "s3_provider \<Rightarrow> string \<Rightarrow> bool \<Rightarrow> unit action" where
  "empty_and_delete_bucket p bucket_name is_versioned =
     try_client
       (steps
          [try_client
             (and_then (request (Call ''get_object_lock_configuration'' [(''Bucket'', Str bucket_name)])
                          (get_object_lock_configuration p bucket_name))
                (\<lambda>_. ret ())),
           (if is_versioned
            then mutate (s3_answer p) (Call ''bucket.object_versions.delete'' [(''Bucket'', Str bucket_name)])
            else mutate (s3_answer p) (Call ''bucket.objects.all.delete'' [(''Bucket'', Str bucket_name)])),
           try_client (mutate (s3_answer p)
             (Call ''delete_bucket_lifecycle'' [(''Bucket'', Str bucket_name)])),
           try_client (mutate (s3_answer p)
             (Call ''delete_bucket_policy'' [(''Bucket'', Str bucket_name)])),
           mutate (s3_answer p) (Call ''delete_bucket'' [(''Bucket'', Str bucket_name)])])"

text \<open>
  \<^verbatim>\<open>clean(region, session, dry_run)\<close> of the S3 module.  With no bucket in the region
  the function returns.
\<close>

definition s3_clean :: "s3_provider \<Rightarrow> string \<Rightarrow> bool \<Rightarrow> unit action" where
  "s3_clean p region dry_run =
     try_client
       (and_then (request (Call ''list_buckets'' []) (list_buckets p))
          (\<lambda>buckets.
             and_then (fold_each (bucket_in_region p region) [] buckets)
               (\<lambda>region_buckets.
                  if region_buckets = [] then ret ()
                  else for_each (\<lambda>bucket_name.
                         and_then (bucket_is_versioned p bucket_name)
                           (\<lambda>is_versioned.
                              if \<not> dry_run then empty_and_delete_bucket p bucket_name is_versioned
                              else ret ()))
                         region_buckets)))"

section \<open>The Lambda cleaner (cleaner/lambda\_module.py)\<close>

text \<open>
  The provider as the Lambda cleaner sees it: the function names, the UUIDs of a
  function's event source mappings, the layer names and the version numbers of a layer.
\<close>

record lambda_provider =
  list_functions :: "string pages"
  list_event_source_mappings :: "string \<Rightarrow> exn + string list"
  list_layers :: "string pages"
  list_layer_versions :: "string \<Rightarrow> string pages"
  lambda_answer :: "call \<Rightarrow> exn option"

definition delete_function :: "lambda_provider \<Rightarrow> string \<Rightarrow> unit action" where
  "delete_function p function_name =
     steps
       [try_client
          (and_then (request (Call ''list_event_source_mappings'' [(''FunctionName'', Str function_name)])
                       (list_event_source_mappings p function_name))
             (for_each (\<lambda>mapping_uuid.
                mutate (lambda_answer p)
                  (Call ''delete_event_source_mapping'' [(''UUID'', Str mapping_uuid)])))),
        try_client (mutate (lambda_answer p)
          (Call ''delete_function'' [(''FunctionName'', Str function_name)]))]"

definition delete_layer :: "lambda_provider \<Rightarrow> string \<Rightarrow> unit action" where
  "delete_layer p layer_name =
     try_client
       (paginate (Call ''list_layer_versions'' [(''LayerName'', Str layer_name)])
          (list_layer_versions p layer_name)
          (\<lambda>version_number.
             mutate (lambda_answer p)
               (Call ''delete_layer_version''
                  [(''LayerName'', Str layer_name), (''VersionNumber'', Str version_number)])))"

text \<open>
  \<^verbatim>\<open>clean(region, session, dry_run)\<close> of the Lambda module; a version number is
  recorded by its decimal text.
\<close>

definition lambda_clean :: "lambda_provider \<Rightarrow> bool \<Rightarrow> unit action" where
  "lambda_clean p dry_run =
     try_client
       (steps
          [paginate (Call ''list_functions'' []) (list_functions p)
             (\<lambda>function_name. if \<not> dry_run then delete_function p function_name else ret ()),
           paginate (Call ''list_layers'' []) (list_layers p)
             (\<lambda>layer_name. if \<not> dry_run then delete_layer p layer_name else ret ())])"

section \<open>The CloudFormation cleaner (cleaner/cloudformation.py)\<close>

record stack_summary =
  StackName :: string
  StackId :: string
  StackStatus :: string
  RootId :: "string option"

record stack_resource =
  LogicalResourceId :: string
  ResourceStatus :: "string option"

record cf_provider =
  list_stacks :: "stack_summary pages"
  list_stack_resources :: "string \<Rightarrow> exn + stack_resource list"
  cf_answer :: "call \<Rightarrow> exn option"

definition stack_status_filters :: "string list" where
  "stack_status_filters =
     [''CREATE_IN_PROGRESS'', ''CREATE_FAILED'', ''CREATE_COMPLETE'', ''ROLLBACK_IN_PROGRESS'',
      ''ROLLBACK_FAILED'', ''ROLLBACK_COMPLETE'', ''DELETE_IN_PROGRESS'', ''DELETE_FAILED'',
      ''UPDATE_IN_PROGRESS'', ''UPDATE_COMPLETE_CLEANUP_IN_PROGRESS'', ''UPDATE_COMPLETE'',
      ''UPDATE_ROLLBACK_IN_PROGRESS'', ''UPDATE_ROLLBACK_FAILED'',
      ''UPDATE_ROLLBACK_COMPLETE_CLEANUP_IN_PROGRESS'', ''UPDATE_ROLLBACK_COMPLETE'',
      ''REVIEW_IN_PROGRESS'', ''IMPORT_IN_PROGRESS'', ''IMPORT_COMPLETE'',
      ''IMPORT_ROLLBACK_IN_PROGRESS'', ''IMPORT_ROLLBACK_FAILED'', ''IMPORT_ROLLBACK_COMPLETE'']"

definition failed_statuses :: "string list" where
  "failed_statuses = [''CREATE_FAILED'', ''ROLLBACK_FAILED'', ''UPDATE_ROLLBACK_FAILED'', ''DELETE_FAILED'']"

definition delete_stack_call :: "string \<Rightarrow> call" where
  "delete_stack_call stack_name = Call ''delete_stack'' [(''StackName'', Str stack_name)]"

text \<open>
  The deletion of a stack in a failed status: the resources in a failed state are
  retained.  The handler of the inner \<^verbatim>\<open>try\<close> covers the listing and the deletion, and
  deletes without \<^verbatim>\<open>RetainResources\<close>.
\<close>

definition delete_failed_stack :: "cf_provider \<Rightarrow> string \<Rightarrow> unit action" where
  "delete_failed_stack p stack_name =
     try_client_handle
       (and_then (request (Call ''list_stack_resources'' [(''StackName'', Str stack_name)])
                    (list_stack_resources p stack_name))
          (\<lambda>resources.
             let retain_resources =
                   map LogicalResourceId
                     (filter (\<lambda>r. ResourceStatus r \<in> set [Some ''CREATE_FAILED'', Some ''DELETE_FAILED''])
                        resources)
             in if retain_resources \<noteq> []
                then mutate (cf_answer p)
                       (Call ''delete_stack''
                          [(''StackName'', Str stack_name), (''RetainResources'', Strs retain_resources)])
                else mutate (cf_answer p) (delete_stack_call stack_name)))
       (mutate (cf_answer p) (delete_stack_call stack_name))"

definition clean_stack :: "cf_provider \<Rightarrow> bool \<Rightarrow> stack_summary \<Rightarrow> unit action" where
  "clean_stack p dry_run stack =
     (if StackStatus stack \<in> set [''DELETE_IN_PROGRESS''] then ret ()
      else if dry_run then ret ()
      else if RootId stack \<noteq> None \<and> RootId stack \<noteq> Some (StackId stack) then ret ()
      else try_client
             (if StackStatus stack \<in> set failed_statuses
              then delete_failed_stack p (StackName stack)
              else mutate (cf_answer p) (delete_stack_call (StackName stack))))"

text \<open>\<^verbatim>\<open>clean(region, session, dry_run)\<close> of the CloudFormation module.\<close>

definition cf_clean :: "cf_provider \<Rightarrow> bool \<Rightarrow> unit action" where
  "cf_clean p dry_run =
     try_client
       (paginate (Call ''list_stacks'' [(''StackStatusFilter'', Strs stack_status_filters)])
          (list_stacks p) (clean_stack p dry_run))"

text \<open>A call of \<^verbatim>\<open>delete_stack\<close> for the stack of the given name, with or without more arguments.\<close>

fun deletes_stack :: "string \<Rightarrow> call \<Rightarrow> bool" where
  "deletes_stack stack_name (Call name args) =
     (name = ''delete_stack'' \<and> take 1 args = [(''StackName'', Str stack_name)])"

section \<open>The RDS cleaner (cleaner/rds.py)\<close>

record db_instance =
  DBInstanceIdentifier :: string
  DBInstanceStatus :: "string option"
  inst_DBClusterIdentifier :: "string option"
  inst_DeletionProtection :: bool

record db_cluster =
  DBClusterIdentifier :: string
  cluster_Status :: "string option"
  cluster_DeletionProtection :: bool

text \<open>
  The provider as the RDS cleaner sees it; snapshots, parameter groups, subnet groups,
  option groups and event subscriptions are given by their names.
\<close>

record rds_provider =
  describe_db_instances :: "db_instance pages"
  describe_db_clusters :: "db_cluster pages"
  describe_db_snapshots :: "string pages"
  describe_db_cluster_snapshots :: "string pages"
  describe_db_parameter_groups :: "string pages"
  describe_db_cluster_parameter_groups :: "string pages"
  describe_db_subnet_groups :: "string pages"
  describe_option_groups :: "string pages"
  describe_event_subscriptions :: "exn + string list"
  rds_answer :: "call \<Rightarrow> exn option"

text \<open>
  1. Instances.  A member of a cluster is left to the cluster; deletion protection is
  switched off first.  The status of the instance is read for the log record only.
\<close>

definition delete_db_instance :: "rds_provider \<Rightarrow> bool \<Rightarrow> db_instance \<Rightarrow> unit action" where
  "delete_db_instance p dry_run instance =
     (if \<not> dry_run
      then try_client
             (if inst_DBClusterIdentifier instance \<noteq> None then ret ()
              else steps
                [if inst_DeletionProtection instance
                 then mutate (rds_answer p)
                        (Call ''modify_db_instance''
                           [(''DBInstanceIdentifier'', Str (DBInstanceIdentifier instance)),
                            (''DeletionProtection'', Flag False), (''ApplyImmediately'', Flag True)])
                 else ret (),
                 mutate (rds_answer p)
                   (Call ''delete_db_instance''
                      [(''DBInstanceIdentifier'', Str (DBInstanceIdentifier instance)),
                       (''SkipFinalSnapshot'', Flag True), (''DeleteAutomatedBackups'', Flag True)])])
      else ret ())"

text \<open>2. Clusters.\<close>

definition delete_db_cluster :: "rds_provider \<Rightarrow> bool \<Rightarrow> db_cluster \<Rightarrow> unit action" where
  "delete_db_cluster p dry_run cluster =
     (if \<not> dry_run
      then try_client
             (steps
                [if cluster_DeletionProtection cluster
                 then mutate (rds_answer p)
                        (Call ''modify_db_cluster''
                           [(''DBClusterIdentifier'', Str (DBClusterIdentifier cluster)),
                            (''DeletionProtection'', Flag False), (''ApplyImmediately'', Flag True)])
                 else ret (),
                 mutate (rds_answer p)
                   (Call ''delete_db_cluster''
                      [(''DBClusterIdentifier'', Str (DBClusterIdentifier cluster)),
                       (''SkipFinalSnapshot'', Flag True)])])
      else ret ())"

text \<open>
  3 to 9. The steps that delete by name: one call per listed name in live mode.  The
  parameter groups whose name starts with \<open>default.\<close> and the option groups whose name
  starts with \<open>default:\<close> are passed over.
\<close>

definition delete_named :: "rds_provider \<Rightarrow> bool \<Rightarrow> string \<Rightarrow> string \<Rightarrow> string \<Rightarrow> unit action" where
  "delete_named p dry_run method_name key name =
     (if \<not> dry_run
      then try_client (mutate (rds_answer p) (Call method_name [(key, Str name)]))
      else ret ())"

definition delete_db_parameter_group :: "rds_provider \<Rightarrow> bool \<Rightarrow> string \<Rightarrow> unit action" where
  "delete_db_parameter_group p dry_run name =
     (if prefix ''default.'' name then ret ()
      else delete_named p dry_run ''delete_db_parameter_group'' ''DBParameterGroupName'' name)"

definition delete_db_cluster_parameter_group :: "rds_provider \<Rightarrow> bool \<Rightarrow> string \<Rightarrow> unit action" where
  "delete_db_cluster_parameter_group p dry_run name =
     (if prefix ''default.'' name then ret ()
      else delete_named p dry_run ''delete_db_cluster_parameter_group''
             ''DBClusterParameterGroupName'' name)"

definition delete_option_group :: "rds_provider \<Rightarrow> bool \<Rightarrow> string \<Rightarrow> unit action" where
  "delete_option_group p dry_run name =
     (if prefix ''default:'' name then ret ()
      else delete_named p dry_run ''delete_option_group'' ''OptionGroupName'' name)"

text \<open>
  \<^verbatim>\<open>clean(region, session, dry_run)\<close> of the RDS module: nine steps, each inside its own
  \<^verbatim>\<open>try\<close> / \<^verbatim>\<open>except ClientError\<close>, the whole inside \<^verbatim>\<open>try\<close> / \<^verbatim>\<open>except Exception\<close>.
\<close>

definition rds_body :: "rds_provider \<Rightarrow> bool \<Rightarrow> unit action" where
  "rds_body p dry_run =
     steps
       [try_client (paginate (Call ''describe_db_instances'' []) (describe_db_instances p)
          (delete_db_instance p dry_run)),
        try_client (paginate (Call ''describe_db_clusters'' []) (describe_db_clusters p)
          (delete_db_cluster p dry_run)),
        try_client (paginate (Call ''describe_db_snapshots'' []) (describe_db_snapshots p)
          (delete_named p dry_run ''delete_db_snapshot'' ''DBSnapshotIdentifier'')),
        try_client (paginate (Call ''describe_db_cluster_snapshots'' []) (describe_db_cluster_snapshots p)
          (delete_named p dry_run ''delete_db_cluster_snapshot'' ''DBClusterSnapshotIdentifier'')),
        try_client (paginate (Call ''describe_db_parameter_groups'' []) (describe_db_parameter_groups p)
          (delete_db_parameter_group p dry_run)),
        try_client (paginate (Call ''describe_db_cluster_parameter_groups'' [])
          (describe_db_cluster_parameter_groups p) (delete_db_cluster_parameter_group p dry_run)),
        try_client (paginate (Call ''describe_db_subnet_groups'' []) (describe_db_subnet_groups p)
          (delete_named p dry_run ''delete_db_subnet_group'' ''DBSubnetGroupName'')),
        try_client (paginate (Call ''describe_option_groups'' []) (describe_option_groups p)
          (delete_option_group p dry_run)),
        try_client (and_then (request (Call ''describe_event_subscriptions'' [])
                                (describe_event_subscriptions p))
          (for_each (delete_named p dry_run ''delete_event_subscription'' ''SubscriptionName'')))]"

definition rds_clean :: "rds_provider \<Rightarrow> bool \<Rightarrow> unit action" where
  "rds_clean p dry_run = try_all (rds_body p dry_run)"

section \<open>The IAM cleaner (cleaner/iam.py)\<close>

record role =
  RoleName :: string
  role_Path :: "string option"

record policy =
  PolicyName :: string
  policy_Arn :: string

record policy_entities =
  PolicyUsers :: "string list"
  PolicyGroups :: "string list"
  PolicyRoles :: "string list"

record policy_version =
  VersionId :: string
  IsDefaultVersion :: bool

text \<open>
  The provider as the IAM cleaner sees it; users, groups, access keys, inline policies,
  attached policies (by ARN), MFA devices (by serial number) and instance profiles are
  given by their names.
\<close>

record iam_provider =
  list_account_aliases :: "exn + string list"
  list_users :: "string pages"
  list_access_keys :: "string \<Rightarrow> exn + string list"
  list_user_policies :: "string \<Rightarrow> exn + string list"
  list_attached_user_policies :: "string \<Rightarrow> exn + string list"
  list_groups_for_user :: "string \<Rightarrow> exn + string list"
  list_mfa_devices :: "string \<Rightarrow> exn + string list"
  get_login_profile :: "string \<Rightarrow> exn + unit"
  list_groups :: "string pages"
  list_group_policies :: "string \<Rightarrow> exn + string list"
  list_attached_group_policies :: "string \<Rightarrow> exn + string list"
  list_roles :: "role pages"
  list_role_policies :: "string \<Rightarrow> exn + string list"
  list_attached_role_policies :: "string \<Rightarrow> exn + string list"
  list_instance_profiles_for_role :: "string \<Rightarrow> exn + string list"
  list_policies :: "policy pages"
  list_entities_for_policy :: "string \<Rightarrow> exn + policy_entities"
  list_policy_versions :: "string \<Rightarrow> exn + policy_version list"
  iam_answer :: "call \<Rightarrow> exn option"

text \<open>
  A block \<^verbatim>\<open>try: xs = list(...); for x in xs: change(x) except ClientError\<close>: the
  listing and the calls of the loop share one handler.
\<close>

definition list_and_change ::
  "iam_provider \<Rightarrow> call \<Rightarrow> exn + string list \<Rightarrow> (string \<Rightarrow> call) \<Rightarrow> unit action" where
  "list_and_change p listing answer change =
     try_client (and_then (request listing answer)
                   (for_each (\<lambda>x. mutate (iam_answer p) (change x))))"

text \<open>1 to 4. One user, in live mode.\<close>

definition delete_user :: "iam_provider \<Rightarrow> string \<Rightarrow> unit action" where
  "delete_user p user_name =
     steps
       [list_and_change p (Call ''list_access_keys'' [(''UserName'', Str user_name)])
          (list_access_keys p user_name)
          (\<lambda>key_id. Call ''delete_access_key'' [(''UserName'', Str user_name), (''AccessKeyId'', Str key_id)]),
        list_and_change p (Call ''list_user_policies'' [(''UserName'', Str user_name)])
          (list_user_policies p user_name)
          (\<lambda>policy_name. Call ''delete_user_policy''
             [(''UserName'', Str user_name), (''PolicyName'', Str policy_name)]),
        list_and_change p (Call ''list_attached_user_policies'' [(''UserName'', Str user_name)])
          (list_attached_user_policies p user_name)
          (\<lambda>policy_arn. Call ''detach_user_policy''
             [(''UserName'', Str user_name), (''PolicyArn'', Str policy_arn)]),
        list_and_change p (Call ''list_groups_for_user'' [(''UserName'', Str user_name)])
          (list_groups_for_user p user_name)
          (\<lambda>group_name. Call ''remove_user_from_group''
             [(''UserName'', Str user_name), (''GroupName'', Str group_name)]),
        list_and_change p (Call ''list_mfa_devices'' [(''UserName'', Str user_name)])
          (list_mfa_devices p user_name)
          (\<lambda>device_serial. Call ''deactivate_mfa_device''
             [(''UserName'', Str user_name), (''SerialNumber'', Str device_serial)]),
        try_client
          (and_then (request (Call ''get_login_profile'' [(''UserName'', Str user_name)])
                       (get_login_profile p user_name))
             (\<lambda>_. mutate (iam_answer p) (Call ''delete_login_profile'' [(''UserName'', Str user_name)]))),
        try_client (mutate (iam_answer p) (Call ''delete_user'' [(''UserName'', Str user_name)]))]"

text \<open>5 and 6. One group, in live mode.\<close>

definition delete_group :: "iam_provider \<Rightarrow> string \<Rightarrow> unit action" where
  "delete_group p group_name =
     steps
       [list_and_change p (Call ''list_group_policies'' [(''GroupName'', Str group_name)])
          (list_group_policies p group_name)
          (\<lambda>policy_name. Call ''delete_group_policy''
             [(''GroupName'', Str group_name), (''PolicyName'', Str policy_name)]),
        list_and_change p (Call ''list_attached_group_policies'' [(''GroupName'', Str group_name)])
          (list_attached_group_policies p group_name)
          (\<lambda>policy_arn. Call ''detach_group_policy''
             [(''GroupName'', Str group_name), (''PolicyArn'', Str policy_arn)]),
        try_client (mutate (iam_answer p) (Call ''delete_group'' [(''GroupName'', Str group_name)]))]"

text \<open>
  7 and 8. One role.  A role whose path starts with \<open>/aws-service-role/\<close> or
  \<open>/service-role/\<close> is passed over; a missing path reads as the empty string.
\<close>

definition role_path :: "role \<Rightarrow> string" where
  "role_path r = (case role_Path r of None \<Rightarrow> [] | Some path \<Rightarrow> path)"

definition is_service_role :: "role \<Rightarrow> bool" where
  "is_service_role r \<longleftrightarrow>
     prefix ''/aws-service-role/'' (role_path r) \<or> prefix ''/service-role/'' (role_path r)"

definition delete_role :: "iam_provider \<Rightarrow> bool \<Rightarrow> role \<Rightarrow> unit action" where
  "delete_role p dry_run r =
     (if is_service_role r then ret ()
      else if \<not> dry_run
      then steps
        [list_and_change p (Call ''list_role_policies'' [(''RoleName'', Str (RoleName r))])
           (list_role_policies p (RoleName r))
           (\<lambda>policy_name. Call ''delete_role_policy''
              [(''RoleName'', Str (RoleName r)), (''PolicyName'', Str policy_name)]),
         list_and_change p (Call ''list_attached_role_policies'' [(''RoleName'', Str (RoleName r))])
           (list_attached_role_policies p (RoleName r))
           (\<lambda>policy_arn. Call ''detach_role_policy''
              [(''RoleName'', Str (RoleName r)), (''PolicyArn'', Str policy_arn)]),
         try_client
           (steps
              [try_client
                 (and_then (request (Call ''list_instance_profiles_for_role''
                                       [(''RoleName'', Str (RoleName r))])
                              (list_instance_profiles_for_role p (RoleName r)))
                    (for_each (\<lambda>profile_name.
                       steps
                         [mutate (iam_answer p)
                            (Call ''remove_role_from_instance_profile''
                               [(''InstanceProfileName'', Str profile_name),
                                (''RoleName'', Str (RoleName r))]),
                          mutate (iam_answer p)
                            (Call ''delete_instance_profile''
                               [(''InstanceProfileName'', Str profile_name)])]))),
               mutate (iam_answer p) (Call ''delete_role'' [(''RoleName'', Str (RoleName r))])])]
      else ret ())"

text \<open>9 and 10. One customer-managed policy, in live mode.\<close>

definition delete_policy :: "iam_provider \<Rightarrow> policy \<Rightarrow> unit action" where
  "delete_policy p pol =
     steps
       [try_client
          (and_then (request (Call ''list_entities_for_policy'' [(''PolicyArn'', Str (policy_Arn pol))])
                       (list_entities_for_policy p (policy_Arn pol)))
             (\<lambda>entities.
                steps
                  [for_each (\<lambda>user_name.
                     mutate (iam_answer p)
                       (Call ''detach_user_policy''
                          [(''UserName'', Str user_name), (''PolicyArn'', Str (policy_Arn pol))]))
                     (PolicyUsers entities),
                   for_each (\<lambda>group_name.
                     mutate (iam_answer p)
                       (Call ''detach_group_policy''
                          [(''GroupName'', Str group_name), (''PolicyArn'', Str (policy_Arn pol))]))
                     (PolicyGroups entities),
                   for_each (\<lambda>role_name.
                     mutate (iam_answer p)
                       (Call ''detach_role_policy''
                          [(''RoleName'', Str role_name), (''PolicyArn'', Str (policy_Arn pol))]))
                     (PolicyRoles entities)])),
        try_client
          (and_then (request (Call ''list_policy_versions'' [(''PolicyArn'', Str (policy_Arn pol))])
                       (list_policy_versions p (policy_Arn pol)))
             (for_each (\<lambda>version.
                if IsDefaultVersion version then ret ()
                else mutate (iam_answer p)
                       (Call ''delete_policy_version''
                          [(''PolicyArn'', Str (policy_Arn pol)), (''VersionId'', Str (VersionId version))])))),
        try_client (mutate (iam_answer p) (Call ''delete_policy'' [(''PolicyArn'', Str (policy_Arn pol))]))]"

text \<open>
  \<^verbatim>\<open>clean(session, dry_run)\<close> of the IAM module: the account alias is read for the log,
  then users, groups, roles and customer-managed policies are processed, each listing
  inside its own \<^verbatim>\<open>try\<close> / \<^verbatim>\<open>except ClientError\<close>, the whole inside
  \<^verbatim>\<open>try\<close> / \<^verbatim>\<open>except Exception\<close>.
\<close>

definition iam_body :: "iam_provider \<Rightarrow> bool \<Rightarrow> unit action" where
  "iam_body p dry_run =
     steps
       [try_client (and_then (request (Call ''list_account_aliases'' []) (list_account_aliases p))
          (\<lambda>_. ret ())),
        try_client (paginate (Call ''list_users'' []) (list_users p)
          (\<lambda>user_name. if \<not> dry_run then delete_user p user_name else ret ())),
        try_client (paginate (Call ''list_groups'' []) (list_groups p)
          (\<lambda>group_name. if \<not> dry_run then delete_group p group_name else ret ())),
        try_client (paginate (Call ''list_roles'' []) (list_roles p) (delete_role p dry_run)),
        try_client (paginate (Call ''list_policies'' [(''Scope'', Str ''Local'')]) (list_policies p)
          (\<lambda>pol. if \<not> dry_run then delete_policy p pol else ret ()))]"

definition iam_clean :: "iam_provider \<Rightarrow> bool \<Rightarrow> unit action" where
  "iam_clean p dry_run = try_all (iam_body p dry_run)"

subsection \<open>Example inputs of the log filter\<close>

definition example_log :: string where
  "example_log =
     ''2024-01-01 10:00:00 - INFO - Found EC2 instance: i-1'' @ [CHR 0x0A] @
     ''2024-01-01 10:00:01 - WARNING - Deleting EBS volume: vol-1'' @ [CHR 0x0A] @
     ''2024-01-01 10:00:02 - ERROR - Failed to delete bucket b'' @ [CHR 0x0A] @
     ''2024-01-01 10:00:03 - INFO - Completed EC2 resource cleanup in us-east-1'' @ [CHR 0x0A]"

definition example_files :: fs where
  "example_files = [''/work/aws_cleanup.log'' \<mapsto> example_log]"

text \<open>
  A working directory that holds \<^verbatim>\<open>aws_cleanup.log\<close>, and a command-line argument that
  names another existing file.
\<close>

definition shadowed_argument_env :: os_env where
  "shadowed_argument_env =
     \<lparr>cwd = ''/work'',
      files = [''/work/aws_cleanup.log'' \<mapsto> '' - INFO - x'', ''/tmp/other.log'' \<mapsto> '' - INFO - y''],
      dirs = [''/'', ''/work'', ''/tmp''],
      walk = [(''/work'', [], [''aws_cleanup.log''])],
      argv = [''update_logging.py'', ''/tmp/other.log'']\<rparr>"

text \<open>No log file at the default locations; the argument names an existing file.\<close>

definition argument_only_env :: os_env where
  "argument_only_env =
     \<lparr>cwd = ''/work'',
      files = [''/tmp/other.log'' \<mapsto> '' - INFO - y''],
      dirs = [''/'', ''/work'', ''/tmp''],
      walk = [(''/work'', [], [])],
      argv = [''update_logging.py'', ''/tmp/other.log'']\<rparr>"

subsection \<open>Example providers\<close>

text \<open>A region with nothing in it, where every call succeeds.\<close>

definition empty_vpc_provider :: vpc_provider where
  "empty_vpc_provider =
     \<lparr>describe_nat_gateways = Inr [],
      describe_network_interfaces = Inr [],
      describe_internet_gateways = Inr [],
      describe_vpn_connections = Inr [],
      describe_vpn_gateways = Inr [],
      describe_transit_gateway_attachments = Inr [],
      describe_transit_gateways = Inr [],
      describe_vpcs = Inr [],
      describe_route_tables = (\<lambda>vpc_id. Inr []),
      describe_subnets = (\<lambda>vpc_id. Inr []),
      describe_security_groups = (\<lambda>vpc_id. Inr []),
      describe_network_acls = (\<lambda>vpc_id. Inr []),
      describe_vpc_endpoints = (\<lambda>vpc_id. Inr []),
      describe_vpc_peering_connections = Inr [],
      vpc_answer = (\<lambda>c. None)\<rparr>"

text \<open>Two VPCs that are not default ones, each with one subnet.\<close>

definition two_vpcs_provider :: vpc_provider where
  "two_vpcs_provider =
     empty_vpc_provider
       \<lparr>describe_vpcs := Inr [\<lparr>VpcId = ''vpc-1'', vpc_IsDefault = False\<rparr>,
                               \<lparr>VpcId = ''vpc-2'', vpc_IsDefault = False\<rparr>],
        describe_subnets := (\<lambda>vpc_id. Inr [\<lparr>SubnetId = ''subnet-of-'' @ vpc_id\<rparr>])\<rparr>"

text \<open>
  A default VPC and another one, each with its default security group and network ACL
  and one more of each; one NAT gateway that is being deleted and one that is available.
\<close>

definition default_vpc_provider :: vpc_provider where
  "default_vpc_provider =
     empty_vpc_provider
       \<lparr>describe_nat_gateways := Inr [\<lparr>NatGatewayId = ''nat-1'', nat_State = ''deleting''\<rparr>,
                                       \<lparr>NatGatewayId = ''nat-2'', nat_State = ''available''\<rparr>],
        describe_vpcs := Inr [\<lparr>VpcId = ''vpc-default'', vpc_IsDefault = True\<rparr>,
                               \<lparr>VpcId = ''vpc-1'', vpc_IsDefault = False\<rparr>],
        describe_security_groups :=
          (\<lambda>vpc_id. Inr [\<lparr>GroupId = ''sg-default-'' @ vpc_id, GroupName = ''default''\<rparr>,
                          \<lparr>GroupId = ''sg-web-'' @ vpc_id, GroupName = ''web''\<rparr>]),
        describe_network_acls :=
          (\<lambda>vpc_id. Inr [\<lparr>NetworkAclId = ''acl-default-'' @ vpc_id, acl_IsDefault = True\<rparr>,
                          \<lparr>NetworkAclId = ''acl-1-'' @ vpc_id, acl_IsDefault = False\<rparr>])\<rparr>"

definition empty_rds_provider :: rds_provider where
  "empty_rds_provider =
     \<lparr>describe_db_instances = ([[]], None),
      describe_db_clusters = ([[]], None),
      describe_db_snapshots = ([[]], None),
      describe_db_cluster_snapshots = ([[]], None),
      describe_db_parameter_groups = ([[]], None),
      describe_db_cluster_parameter_groups = ([[]], None),
      describe_db_subnet_groups = ([[]], None),
      describe_option_groups = ([[]], None),
      describe_event_subscriptions = Inr [],
      rds_answer = (\<lambda>c. None)\<rparr>"

text \<open>One database instance whose status is \<open>deleting\<close>.\<close>

definition deleting_instance_provider :: rds_provider where
  "deleting_instance_provider =
     empty_rds_provider
       \<lparr>describe_db_instances :=
          ([[\<lparr>DBInstanceIdentifier = ''db-1'', DBInstanceStatus = Some ''deleting'',
               inst_DBClusterIdentifier = None, inst_DeletionProtection = False\<rparr>]], None)\<rparr>"

text \<open>A default parameter group and a custom one.\<close>

definition parameter_groups_provider :: rds_provider where
  "parameter_groups_provider =
     empty_rds_provider
       \<lparr>describe_db_parameter_groups := ([[''default.mysql8.0'', ''custom-mysql'']], None)\<rparr>"

definition empty_ec2_provider :: ec2_provider where
  "empty_ec2_provider =
     \<lparr>instances_all = ([[]], None),
      ec2_describe_security_groups = Inr [],
      describe_addresses = Inr [],
      volumes_all = ([[]], None),
      get_caller_identity = Inr ''123456789012'',
      describe_snapshots = (\<lambda>owner. Inr []),
      describe_images = (\<lambda>owner. Inr []),
      ec2_answer = (\<lambda>c. None)\<rparr>"

text \<open>
  One snapshot owned by the account that also backs one of the account's images; one
  instance that is running and one that is terminated; the default security group and
  another one.
\<close>

definition image_snapshot_provider :: ec2_provider where
  "image_snapshot_provider =
     empty_ec2_provider
       \<lparr>instances_all := ([[\<lparr>instance_id = ''i-1'', instance_state_name = ''terminated''\<rparr>,
                              \<lparr>instance_id = ''i-2'', instance_state_name = ''running''\<rparr>]], None),
        ec2_describe_security_groups :=
          Inr [\<lparr>GroupId = ''sg-0'', GroupName = ''default''\<rparr>,
               \<lparr>GroupId = ''sg-1'', GroupName = ''web''\<rparr>],
        describe_snapshots := (\<lambda>owner. Inr [\<lparr>SnapshotId = ''snap-1''\<rparr>]),
        describe_images :=
          (\<lambda>owner. Inr [\<lparr>ImageId = ''ami-1'',
                           BlockDeviceMappings =
                             [\<lparr>Ebs = Some \<lparr>ebs_SnapshotId = Some ''snap-1''\<rparr>\<rparr>]\<rparr>])\<rparr>"

text \<open>A stack that is being deleted and a stack that is complete.\<close>

definition two_stacks_provider :: cf_provider where
  "two_stacks_provider =
     \<lparr>list_stacks =
        ([[\<lparr>StackName = ''old'', StackId = ''id-old'', StackStatus = ''DELETE_IN_PROGRESS'',
             RootId = None\<rparr>,
           \<lparr>StackName = ''app'', StackId = ''id-app'', StackStatus = ''CREATE_COMPLETE'',
             RootId = None\<rparr>]], None),
      list_stack_resources = (\<lambda>stack_name. Inr []),
      cf_answer = (\<lambda>c. None)\<rparr>"

text \<open>A service-linked role and an ordinary role; nothing else in the account.\<close>

definition two_roles_provider :: iam_provider where
  "two_roles_provider =
     \<lparr>list_account_aliases = Inr [],
      list_users = ([[]], None),
      list_access_keys = (\<lambda>user_name. Inr []),
      list_user_policies = (\<lambda>user_name. Inr []),
      list_attached_user_policies = (\<lambda>user_name. Inr []),
      list_groups_for_user = (\<lambda>user_name. Inr []),
      list_mfa_devices = (\<lambda>user_name. Inr []),
      get_login_profile = (\<lambda>user_name. Inl (ClientError ''NoSuchEntity'')),
      list_groups = ([[]], None),
      list_group_policies = (\<lambda>group_name. Inr []),
      list_attached_group_policies = (\<lambda>group_name. Inr []),
      list_roles =
        ([[\<lparr>RoleName = ''AWSServiceRoleForSupport'',
             role_Path = Some ''/aws-service-role/support.amazonaws.com/''\<rparr>,
           \<lparr>RoleName = ''deployer'', role_Path = Some ''/''\<rparr>]], None),
      list_role_policies = (\<lambda>role_name. Inr []),
      list_attached_role_policies = (\<lambda>role_name. Inr []),
      list_instance_profiles_for_role = (\<lambda>role_name. Inr []),
      list_policies = ([[]], None),
      list_entities_for_policy =
        (\<lambda>arn. Inr \<lparr>PolicyUsers = [], PolicyGroups = [], PolicyRoles = []\<rparr>),
      list_policy_versions = (\<lambda>arn. Inr []),
      iam_answer = (\<lambda>c. None)\<rparr>"

section \<open>Calls of composed actions\<close>

lemma calls_ret [simp]: "calls (ret x) = []"
  by (simp add: ret_def calls_def)

lemma outcome_ret [simp]: "outcome (ret x) = Inr x"
  by (simp add: ret_def outcome_def)

lemma calls_request [simp]: "calls (request c r) = [c]"
  by (simp add: request_def calls_def)

lemma outcome_request [simp]: "outcome (request c r) = r"
  by (simp add: request_def outcome_def)

lemma calls_mutate [simp]: "calls (mutate a c) = [c]"
  by (simp add: mutate_def calls_def)

lemma calls_try_all [simp]: "calls (try_all m) = calls m"
  by (simp add: try_all_def calls_def)

lemma outcome_try_all [simp]: "outcome (try_all m) = Inr ()"
  by (simp add: try_all_def outcome_def)

lemma calls_try_client [simp]: "calls (try_client m) = calls m"
  by (simp add: try_client_def calls_def outcome_def split: sum.splits exn.splits)

lemma calls_try_client_value [simp]: "calls (try_client_value m d) = calls m"
  by (simp add: try_client_value_def calls_def outcome_def split: sum.splits exn.splits)

lemma calls_and_then:
  "calls (and_then m f) = calls m @ (case outcome m of Inl e \<Rightarrow> [] | Inr x \<Rightarrow> calls (f x))"
  by (simp add: and_then_def calls_def outcome_def split: sum.splits)

lemma outcome_and_then:
  "outcome (and_then m f) = (case outcome m of Inl e \<Rightarrow> Inl e | Inr x \<Rightarrow> outcome (f x))"
  by (simp add: and_then_def calls_def outcome_def split: sum.splits)

lemma is_mutating_Call [simp]: "is_mutating (Call name args) = (\<not> is_read_method name)"
  by (simp add: is_mutating_def)

text \<open>When every call of the parts has a property, every call of the whole has it.\<close>

lemma all_and_then:
  "list_all P (calls m) \<Longrightarrow> (\<And>x. outcome m = Inr x \<Longrightarrow> list_all P (calls (f x)))
   \<Longrightarrow> list_all P (calls (and_then m f))"
  by (simp add: calls_and_then split: sum.splits)

lemma all_for_each:
  "(\<And>x. x \<in> set xs \<Longrightarrow> list_all P (calls (body x))) \<Longrightarrow> list_all P (calls (for_each body xs))"
  by (induction xs) (simp_all add: all_and_then)

lemma all_steps:
  "list_all (\<lambda>m. list_all P (calls m)) ms \<Longrightarrow> list_all P (calls (steps ms))"
  unfolding steps_def by (rule all_for_each) (simp add: list_all_iff)

lemma all_fold_each:
  "(\<And>s x. x \<in> set xs \<Longrightarrow> list_all P (calls (body s x)))
   \<Longrightarrow> list_all P (calls (fold_each body s xs))"
  by (induction xs arbitrary: s) (simp_all add: all_and_then)

lemma all_try_client_handle:
  "list_all P (calls m) \<Longrightarrow> list_all P (calls h) \<Longrightarrow> list_all P (calls (try_client_handle m h))"
  by (simp add: try_client_handle_def calls_def outcome_def split: sum.splits exn.splits)

lemma all_paginate_from:
  "P c \<Longrightarrow> (\<And>x. x \<in> set (concat pages) \<Longrightarrow> list_all P (calls (body x)))
   \<Longrightarrow> list_all P (calls (paginate_from c pages failure body))"
proof (induction pages)
  case Nil
  then show ?case by (simp split: option.splits)
next
  case (Cons page rest)
  then show ?case by (auto intro!: all_and_then all_for_each)
qed

lemma all_paginate:
  "P c \<Longrightarrow> (\<And>x. x \<in> set (items answer) \<Longrightarrow> list_all P (calls (body x)))
   \<Longrightarrow> list_all P (calls (paginate c answer body))"
  unfolding paginate_def items_def by (rule all_paginate_from)

lemmas all_intros =
  all_and_then all_for_each all_steps all_fold_each all_try_client_handle all_paginate

lemma issued_only_for_all:
  "issued_only_for name mk ok listing cs
     = list_all (\<lambda>c. method_of c = name \<longrightarrow> (\<exists>x \<in> set listing. c = mk x \<and> ok x)) cs"
  by (simp add: issued_only_for_def list_all_iff)

lemma listed_Inr [simp]: "listed (Inr xs) = xs"
  by (simp add: listed_def)

section \<open>Properties of the log filter\<close>

lemma contains_sublist: "contains sub s \<longleftrightarrow> sublist sub s"
  by (induction s) (auto simp: sublist_Cons_right)

lemma contains_trans: "contains a b \<Longrightarrow> contains b c \<Longrightarrow> contains a c"
  unfolding contains_sublist sublist_def by (metis append.assoc)

lemma contains_append_left: "contains sub (sub @ t)"
  unfolding contains_sublist by simp

text \<open>Replacing a substring that occurs leaves the replacement text in the result.\<close>

lemma replace_contains_new:
  "old \<noteq> [] \<Longrightarrow> contains old s \<Longrightarrow> contains new (replace old new s)"
proof (induction old new s rule: replace.induct)
  case (1 old new)
  then show ?case by simp
next
  case (2 old new c cs)
  show ?case
  proof (cases "prefix old (c # cs)")
    case True
    with 2 show ?thesis by (simp add: contains_append_left)
  next
    case False
    with 2 have "contains old cs" by simp
    with 2 False have "contains new (replace old new cs)" by simp
    with 2 False show ?thesis by simp
  qed
qed

lemma foldl_filter_step:
  "foldl filter_step acc ls = acc @ map reclassify (filter retained ls)"
  by (induction ls arbitrary: acc) (auto simp: filter_step_def retained_def reclassify_def)

lemma filter_lines_spec: "filter_lines ls = map reclassify (filter retained ls)"
  by (simp add: filter_lines_def foldl_filter_step)

lemma reclassify_retained: "retained l \<Longrightarrow> retained (reclassify l)"
proof (cases "contains '' - INFO - Completed'' l")
  case True
  have "contains '' - INFO - '' '' - INFO - Completed''" by simp
  with True have "contains '' - INFO - '' l" using contains_trans by blast
  then have "contains '' - WARNING - '' (replace '' - INFO - '' '' - WARNING - '' l)"
    by (intro replace_contains_new) simp_all
  moreover have "contains '' - WARNING -'' '' - WARNING - ''" by simp
  ultimately have "contains '' - WARNING -'' (replace '' - INFO - '' '' - WARNING - '' l)"
    using contains_trans by blast
  with True show ?thesis by (simp add: retained_def reclassify_def)
next
  case False
  assume "retained l"
  with False show ?thesis by (simp add: reclassify_def)
qed

lemma filter_retained_output: "filter retained (filter_lines ls) = filter_lines ls"
  by (rule filter_True) (auto simp: filter_lines_spec reclassify_retained)

lemma backup_path_neq: "backup_path p ts \<noteq> p"
  by (simp add: backup_path_def)


lemma example_log_lines:
  "splitlines example_log =
     [''2024-01-01 10:00:00 - INFO - Found EC2 instance: i-1'',
      ''2024-01-01 10:00:01 - WARNING - Deleting EBS volume: vol-1'',
      ''2024-01-01 10:00:02 - ERROR - Failed to delete bucket b'',
      ''2024-01-01 10:00:03 - INFO - Completed EC2 resource cleanup in us-east-1'']"
  by (simp add: example_log_def splitlines_def is_linebreak_def)


text \<open>
  Claim C10, as stated, fails: a line in which two occurrences of the INFO separator
  overlap in front of \<open>Completed\<close> is rewritten once by each pass.
\<close>

theorem filter_lines_not_idempotent:
  "filter_lines (filter_lines ['' - INFO - INFO - Completed''])
     \<noteq> filter_lines ['' - INFO - INFO - Completed'']"
  by (simp add: filter_lines_def filter_step_def)

text \<open>
  Claim C10, amended.  Every line of the filter's output is retained by a second pass,
  which therefore drops nothing and only reclassifies again; the output is a fixed point
  of the filter whenever none of its lines still carries the INFO-level \<open>Completed\<close>
  marker.
\<close>

theorem filter_lines_second_pass:
  "filter_lines (filter_lines ls) = map reclassify (filter_lines ls)
   \<and> ((\<forall>l \<in> set (filter_lines ls). \<not> contains '' - INFO - Completed'' l)
        \<longrightarrow> filter_lines (filter_lines ls) = filter_lines ls)"
proof -
  have eq: "filter_lines (filter_lines ls) = map reclassify (filter_lines ls)"
    by (subst filter_lines_spec) (simp add: filter_retained_output)
  have "map reclassify (filter_lines ls) = filter_lines ls"
    if "\<forall>l \<in> set (filter_lines ls). \<not> contains '' - INFO - Completed'' l"
    using that by (intro map_idI) (simp add: reclassify_def)
  with eq show ?thesis by simp
qed

theorem filter_lines_second_pass_witness:
  "filter_lines (filter_lines (splitlines example_log)) = filter_lines (splitlines example_log)
   \<and> filter_lines (splitlines example_log) =
       [''2024-01-01 10:00:01 - WARNING - Deleting EBS volume: vol-1'',
        ''2024-01-01 10:00:03 - WARNING - Completed EC2 resource cleanup in us-east-1'']"
proof -
  have v: "filter_lines (splitlines example_log) =
       [''2024-01-01 10:00:01 - WARNING - Deleting EBS volume: vol-1'',
        ''2024-01-01 10:00:03 - WARNING - Completed EC2 resource cleanup in us-east-1'']"
    by (simp add: example_log_lines filter_lines_def filter_step_def)
  have h: "\<forall>l \<in> set (filter_lines (splitlines example_log)). \<not> contains '' - INFO - Completed'' l"
    unfolding v by simp
  have r: "filter_lines (filter_lines (splitlines example_log)) = filter_lines (splitlines example_log)"
    using h filter_lines_second_pass [of "splitlines example_log"] by blast
  show ?thesis
    by (intro conjI r v)
qed

text \<open>
  Claim C7, as stated, fails: with \<^verbatim>\<open>aws_cleanup.log\<close> in the working directory, an
  argument that names another existing file is not consulted; the file in the working
  directory is filtered and the named file is left as it was.
\<close>

theorem main_argument_shadowed:
  "length (argv shadowed_argument_env) > 1
   \<and> files shadowed_argument_env (argv shadowed_argument_env ! 1) \<noteq> None
   \<and> main_targets shadowed_argument_env = [''/work/aws_cleanup.log'']
   \<and> argv shadowed_argument_env ! 1 \<notin> set (main_targets shadowed_argument_env)
   \<and> snd (main shadowed_argument_env (\<lambda>k. ''20240101_120000'')) ''/tmp/other.log''
       = files shadowed_argument_env ''/tmp/other.log''"
  by (simp add: shadowed_argument_env_def main_def main_targets_def path_join_def
      path_exists_def filter_log_file_def backup_path_def Let_def)

text \<open>
  Claim C7, amended.  The default locations come first: the working directory, then its
  parent, then the search below the working directory.  When one of them has the log
  file, the targets do not depend on the arguments.  Only when none has it, an argument
  that names an existing path makes that path the single target.
\<close>

theorem main_argument_last:
  "(path_exists env (path_join (cwd env) ''aws_cleanup.log'')
      \<or> path_exists env (path_join (dirname (cwd env)) ''aws_cleanup.log'')
      \<or> walk_found env \<noteq> []
    \<longrightarrow> main_targets (env\<lparr>argv := args\<rparr>) = main_targets env)
   \<and> (\<not> path_exists env (path_join (cwd env) ''aws_cleanup.log'')
      \<and> \<not> path_exists env (path_join (dirname (cwd env)) ''aws_cleanup.log'')
      \<and> walk_found env = []
      \<and> length (argv env) > 1 \<and> path_exists env (argv env ! 1)
    \<longrightarrow> main_targets env = [argv env ! 1])"
  by (simp add: main_targets_def Let_def path_exists_def walk_found_def)

theorem main_argument_last_witness:
  "path_exists shadowed_argument_env (path_join (cwd shadowed_argument_env) ''aws_cleanup.log'')
   \<and> main_targets (shadowed_argument_env\<lparr>argv := []\<rparr>) = main_targets shadowed_argument_env
   \<and> \<not> path_exists argument_only_env (path_join (cwd argument_only_env) ''aws_cleanup.log'')
   \<and> \<not> path_exists argument_only_env (path_join (dirname (cwd argument_only_env)) ''aws_cleanup.log'')
   \<and> walk_found argument_only_env = []
   \<and> length (argv argument_only_env) > 1
   \<and> path_exists argument_only_env (argv argument_only_env ! 1)
   \<and> main_targets argument_only_env = [''/tmp/other.log'']"
proof -
  have a: "path_exists shadowed_argument_env (path_join (cwd shadowed_argument_env) ''aws_cleanup.log'')"
    by (simp add: shadowed_argument_env_def path_exists_def path_join_def)
  have b: "\<not> path_exists argument_only_env (path_join (cwd argument_only_env) ''aws_cleanup.log'')
     \<and> \<not> path_exists argument_only_env (path_join (dirname (cwd argument_only_env)) ''aws_cleanup.log'')
     \<and> walk_found argument_only_env = []
     \<and> length (argv argument_only_env) > 1
     \<and> path_exists argument_only_env (argv argument_only_env ! 1)"
    by (simp add: argument_only_env_def path_exists_def path_join_def dirname_def walk_found_def)
  have c: "argv argument_only_env ! 1 = ''/tmp/other.log''"
    by (simp add: argument_only_env_def)
  show ?thesis
    using a b c main_argument_last [of shadowed_argument_env "[]"]
      main_argument_last [of argument_only_env "[]"]
    by simp
qed

section \<open>Properties of the orchestrator\<close>

lemma filter_clean_try_clean:
  "is_clean call \<Longrightarrow> filter is_clean (try_clean env call pfx log) = filter is_clean log @ [call]"
  by (simp add: try_clean_def split: option.splits)

lemma filter_clean_resources:
  "filter is_clean (foldl (clean_resource env region dry) log ms)
     = filter is_clean log @ map (\<lambda>name. CleanRegion name region dry) (filter (\<lambda>name. name \<noteq> ''IAM'') ms)"
  by (induction ms arbitrary: log) (simp_all add: clean_resource_def filter_clean_try_clean)

lemma filter_clean_regions:
  "filter is_clean (foldl (clean_region env ms dry) log rs)
     = filter is_clean log
       @ concat (map (\<lambda>region. map (\<lambda>name. CleanRegion name region dry) (filter (\<lambda>name. name \<noteq> ''IAM'') ms)) rs)"
  by (induction rs arbitrary: log) (simp_all add: clean_region_def filter_clean_resources)

lemma run_cleanup_calls:
  "session_error env = None \<Longrightarrow>
   filter is_clean (run_cleanup env profile resources dry)
     = (if ''IAM'' \<in> set resources then [CleanGlobal ''IAM'' dry] else [])
       @ regional_calls (regions_of env) resources dry"
  by (simp add: run_cleanup_def Let_def filter_clean_regions filter_clean_try_clean
      regional_calls_def split: sum.splits)

lemma flf_append:
  "failures_logged_from env pre xs \<Longrightarrow> failures_logged_from env (pre @ xs) ys
   \<Longrightarrow> failures_logged_from env pre (xs @ ys)"
proof (induction xs arbitrary: pre)
  case Nil
  then show ?case by simp
next
  case (Cons ev xs)
  from Cons.prems have tl: "failures_logged_from env (pre @ [ev]) xs" by simp
  from Cons.prems have "failures_logged_from env ((pre @ [ev]) @ xs) ys" by simp
  with tl have rec: "failures_logged_from env (pre @ [ev]) (xs @ ys)" by (rule Cons.IH)
  have hd: "take (Suc 0) (xs @ ys) = [a]" if "take (Suc 0) xs = [a]" for a
    using that by (cases xs) simp_all
  show ?case
  proof (cases "is_clean ev")
    case False
    with rec show ?thesis by simp
  next
    case True
    show ?thesis
    proof (cases "clean_raises env (pre @ [ev])")
      case None
      with True rec show ?thesis by simp
    next
      case (Some e)
      with True Cons.prems(1) have "take (Suc 0) xs = [LogError (clean_error_text ev e)]" by simp
      then have "take (Suc 0) (xs @ ys) = [LogError (clean_error_text ev e)]" by (rule hd)
      with True Some rec show ?thesis by (simp del: take_append)
    qed
  qed
qed

lemma flf_info: "failures_logged_from env pre xs \<Longrightarrow> failures_logged_from env pre (xs @ [LogInfo m])"
  by (rule flf_append) simp_all

lemma flf_error: "failures_logged_from env pre xs \<Longrightarrow> failures_logged_from env pre (xs @ [LogError m])"
  by (rule flf_append) simp_all

lemma flf_try_clean:
  "is_clean call \<Longrightarrow> clean_error_text call = (\<lambda>e. pfx @ str_exn e) \<Longrightarrow>
   failures_logged_from env [] log \<Longrightarrow> failures_logged_from env [] (try_clean env call pfx log)"
  unfolding try_clean_def
  by (cases "clean_raises env (log @ [call])") (auto intro!: flf_append)

lemma flf_resources:
  "failures_logged_from env [] log \<Longrightarrow>
   failures_logged_from env [] (foldl (clean_resource env region dry) log ms)"
proof (induction ms arbitrary: log)
  case Nil
  then show ?case by simp
next
  case (Cons m ms)
  have "failures_logged_from env [] (clean_resource env region dry log m)"
    unfolding clean_resource_def using Cons.prems
    by (auto intro!: flf_try_clean flf_info)
  then show ?case by (simp add: Cons.IH)
qed

lemma flf_regions:
  "failures_logged_from env [] log \<Longrightarrow>
   failures_logged_from env [] (foldl (clean_region env ms dry) log rs)"
proof (induction rs arbitrary: log)
  case Nil
  then show ?case by simp
next
  case (Cons r rs)
  have "failures_logged_from env [] (clean_region env ms dry log r)"
    unfolding clean_region_def using Cons.prems
    by (intro flf_resources flf_info)
  then show ?case by (simp add: Cons.IH)
qed

lemma run_cleanup_failures_logged:
  "failures_logged env (run_cleanup env profile resources dry)"
proof (cases "session_error env")
  case (Some e)
  then show ?thesis by (simp add: run_cleanup_def failures_logged_def)
next
  case None
  have l0: "failures_logged_from env [] [LogInfo a, LogInfo b, LogInfo c]" for a b c by simp
  show ?thesis
    unfolding failures_logged_def run_cleanup_def Let_def using None
    by (auto split: sum.splits intro!: flf_info flf_regions flf_try_clean flf_error
        simp del: failures_logged_from.simps append.simps append_assoc intro: l0)
qed

lemma run_cleanup_last:
  "session_error env = None \<Longrightarrow>
   last (run_cleanup env profile resources dry) = LogInfo ''Cleanup process completed''"
  by (simp add: run_cleanup_def Let_def)


lemma regional_calls_no_iam: "CleanRegion ''IAM'' r d \<notin> set (regional_calls regions resources dry)"
  by (auto simp: regional_calls_def)

lemma regional_calls_no_global: "CleanGlobal m d \<notin> set (regional_calls regions resources dry)"
  by (auto simp: regional_calls_def)

text \<open>
  Claim C4, as stated, fails: when the session cannot be created the run ends before
  any cleaner is called, IAM's included, although IAM is selected.
\<close>

theorem iam_not_cleaned_without_session:
  "''IAM'' \<in> set [''IAM'', ''S3'', ''EC2'']
   \<and> filter is_clean (run_cleanup no_session_env ''nobody'' [''IAM'', ''S3'', ''EC2''] True) = []"
  by (simp add: run_cleanup_def no_session_env_def)

text \<open>
  Claim C4, amended.  In every run whose session is created and in which IAM is
  selected, the calls of cleaners are: IAM's \<^verbatim>\<open>clean\<close> once, first, and then the regional
  calls; no regional call is made for IAM and IAM's global call is not repeated.  This
  holds for every list of regions, the empty one and a failed region listing included,
  and whatever the cleaners raise.
\<close>

theorem iam_cleaned_once_first:
  assumes "session_error env = None" and "''IAM'' \<in> set resources"
  shows "filter is_clean (run_cleanup env profile resources dry)
           = CleanGlobal ''IAM'' dry # regional_calls (regions_of env) resources dry
         \<and> length (filter (\<lambda>ev. ev = CleanGlobal ''IAM'' dry) (run_cleanup env profile resources dry)) = 1
         \<and> (\<forall>r d. CleanRegion ''IAM'' r d \<notin> set (run_cleanup env profile resources dry))"
proof -
  let ?log = "run_cleanup env profile resources dry"
  let ?reg = "regional_calls (regions_of env) resources dry"
  have calls: "filter is_clean ?log = CleanGlobal ''IAM'' dry # ?reg"
    using assms by (simp add: run_cleanup_calls)
  have "filter (\<lambda>ev. ev = CleanGlobal ''IAM'' dry) ?log
          = filter (\<lambda>ev. ev = CleanGlobal ''IAM'' dry) (filter is_clean ?log)"
    by (auto intro: filter_cong simp: )
  also have "\<dots> = CleanGlobal ''IAM'' dry # filter (\<lambda>ev. ev = CleanGlobal ''IAM'' dry) ?reg"
    by (simp add: calls)
  also have "filter (\<lambda>ev. ev = CleanGlobal ''IAM'' dry) ?reg = []"
    using regional_calls_no_global by (auto simp: filter_empty_conv)
  finally have once: "length (filter (\<lambda>ev. ev = CleanGlobal ''IAM'' dry) ?log) = 1" by simp
  have "CleanRegion ''IAM'' r d \<notin> set ?log" for r d
  proof
    assume "CleanRegion ''IAM'' r d \<in> set ?log"
    then have "CleanRegion ''IAM'' r d \<in> set (filter is_clean ?log)" by simp
    then have "CleanRegion ''IAM'' r d \<in> set ?reg" by (simp add: calls)
    then show False by (auto simp: regional_calls_def)
  qed
  with calls once show ?thesis by blast
qed

theorem iam_cleaned_once_first_witness:
  "session_error failing_env = None
   \<and> ''IAM'' \<in> set [''S3'', ''IAM'', ''EC2'']
   \<and> filter is_clean (run_cleanup failing_env ''p'' [''S3'', ''IAM'', ''EC2''] False)
       = [CleanGlobal ''IAM'' False,
          CleanRegion ''EC2'' ''us-east-1'' False, CleanRegion ''S3'' ''us-east-1'' False,
          CleanRegion ''EC2'' ''eu-west-1'' False, CleanRegion ''S3'' ''eu-west-1'' False]
   \<and> length (filter (\<lambda>ev. ev = CleanGlobal ''IAM'' False)
               (run_cleanup failing_env ''p'' [''S3'', ''IAM'', ''EC2''] False)) = 1"
proof -
  have a: "session_error failing_env = None" by (simp add: failing_env_def)
  have b: "''IAM'' \<in> set [''S3'', ''IAM'', ''EC2'']" by simp
  have c: "regional_calls (regions_of failing_env) [''S3'', ''IAM'', ''EC2''] False
       = [CleanRegion ''EC2'' ''us-east-1'' False, CleanRegion ''S3'' ''us-east-1'' False,
          CleanRegion ''EC2'' ''eu-west-1'' False, CleanRegion ''S3'' ''eu-west-1'' False]"
    by (simp add: regional_calls_def regions_of_def failing_env_def resource_modules_def)
  show ?thesis
    using a b c iam_cleaned_once_first [OF a b, of "''p''" False] by simp
qed

text \<open>
  Claim C5.  In a run whose session is created (only then can a cleaner be called, and
  so raise), whatever the calls of \<^verbatim>\<open>clean\<close> raise: the calls made are IAM's, when
  selected, and then every pair of a region and a selected regional module, in order,
  none left out; each call that raised is followed at once by its error record; and the
  last event of the run is the record of completion.
\<close>

theorem cleaner_failure_does_not_abort:
  assumes "session_error env = None"
  shows "filter is_clean (run_cleanup env profile resources dry)
           = (if ''IAM'' \<in> set resources then [CleanGlobal ''IAM'' dry] else [])
             @ regional_calls (regions_of env) resources dry
         \<and> failures_logged env (run_cleanup env profile resources dry)
         \<and> last (run_cleanup env profile resources dry) = LogInfo ''Cleanup process completed''"
  using assms run_cleanup_calls run_cleanup_failures_logged run_cleanup_last by simp

theorem cleaner_failure_does_not_abort_witness:
  "session_error failing_env = None
   \<and> filter is_clean (run_cleanup failing_env ''p'' [''S3'', ''EC2''] False)
       = [CleanRegion ''EC2'' ''us-east-1'' False, CleanRegion ''S3'' ''us-east-1'' False,
          CleanRegion ''EC2'' ''eu-west-1'' False, CleanRegion ''S3'' ''eu-west-1'' False]
   \<and> clean_raises failing_env [CleanRegion ''EC2'' ''us-east-1'' False] = Some (OtherException ''boom'')
   \<and> failures_logged failing_env (run_cleanup failing_env ''p'' [''S3'', ''EC2''] False)
   \<and> last (run_cleanup failing_env ''p'' [''S3'', ''EC2''] False) = LogInfo ''Cleanup process completed''"
proof -
  have a: "session_error failing_env = None" by (simp add: failing_env_def)
  have c: "regional_calls (regions_of failing_env) [''S3'', ''EC2''] False
       = [CleanRegion ''EC2'' ''us-east-1'' False, CleanRegion ''S3'' ''us-east-1'' False,
          CleanRegion ''EC2'' ''eu-west-1'' False, CleanRegion ''S3'' ''eu-west-1'' False]"
    by (simp add: regional_calls_def regions_of_def failing_env_def resource_modules_def)
  have d: "clean_raises failing_env [CleanRegion ''EC2'' ''us-east-1'' False] = Some (OtherException ''boom'')"
    by (simp add: failing_env_def)
  show ?thesis
    using a c d cleaner_failure_does_not_abort [OF a, of "''p''" "[''S3'', ''EC2'']" False] by simp
qed

section \<open>Properties of the cleaners\<close>

lemmas vpc_defs = vpc_clean_def vpc_body_def clean_nat_gateways_def clean_network_interfaces_def
    clean_internet_gateways_def clean_vpn_connections_def clean_vpn_gateways_def
    clean_tgw_attachments_def clean_transit_gateways_def clean_vpcs_def clean_vpc_resources_def
    clean_route_tables_def clean_subnets_def clean_security_groups_def clean_network_acls_def
    clean_vpc_endpoints_def clean_vpc_peerings_def delete_vpcs_def vpc_filter_def

lemmas ec2_defs = ec2_clean_def terminate_instances_def delete_security_groups_def
    release_addresses_def delete_volumes_def delete_snapshots_def deregister_images_def
    delete_image_snapshot_def

lemmas s3_defs = s3_clean_def bucket_in_region_def bucket_is_versioned_def
    empty_and_delete_bucket_def

lemmas lambda_defs = lambda_clean_def delete_function_def delete_layer_def

lemmas cf_defs = cf_clean_def clean_stack_def delete_failed_stack_def delete_stack_call_def

lemmas rds_defs = rds_clean_def rds_body_def delete_db_instance_def delete_db_cluster_def
    delete_named_def delete_db_parameter_group_def delete_db_cluster_parameter_group_def
    delete_option_group_def

lemmas iam_defs = iam_clean_def iam_body_def delete_user_def delete_group_def delete_role_def
    delete_policy_def list_and_change_def

lemma vpc_dry: "list_all (\<lambda>c. \<not> is_mutating c) (calls (vpc_clean p True))"
  unfolding vpc_defs by (auto intro!: all_intros simp: is_read_method_def)

lemma ec2_dry: "list_all (\<lambda>c. \<not> is_mutating c) (calls (ec2_clean p True))"
  unfolding ec2_defs by (auto intro!: all_intros simp: is_read_method_def split: option.splits)

lemma s3_dry: "list_all (\<lambda>c. \<not> is_mutating c) (calls (s3_clean p region True))"
  unfolding s3_defs by (auto intro!: all_intros simp: is_read_method_def split: option.splits)

lemma lambda_dry: "list_all (\<lambda>c. \<not> is_mutating c) (calls (lambda_clean p True))"
  unfolding lambda_clean_def by (auto intro!: all_intros simp: is_read_method_def)

lemma cf_dry: "list_all (\<lambda>c. \<not> is_mutating c) (calls (cf_clean p True))"
  unfolding cf_clean_def clean_stack_def by (auto intro!: all_intros simp: is_read_method_def)

lemma rds_dry: "list_all (\<lambda>c. \<not> is_mutating c) (calls (rds_clean p True))"
  unfolding rds_defs by (auto intro!: all_intros simp: is_read_method_def)

lemma iam_dry: "list_all (\<lambda>c. \<not> is_mutating c) (calls (iam_clean p True))"
  unfolding iam_clean_def iam_body_def delete_role_def
  by (auto intro!: all_intros simp: is_read_method_def)

lemma no_mutating: "list_all (\<lambda>c. \<not> is_mutating c) cs \<Longrightarrow> filter is_mutating cs = []"
  by (simp add: filter_empty_conv list_all_iff)

text \<open>
  Claim C1.  With \<^verbatim>\<open>dry_run=True\<close> no cleaner issues a call that changes something:
  every call of the run is a \<^verbatim>\<open>describe_\<close>, \<^verbatim>\<open>list_\<close> or \<^verbatim>\<open>get_\<close> call or the
  iteration of a resource collection, whatever the provider answers.
\<close>

theorem dry_run_issues_no_mutating_call:
  "filter is_mutating (calls (ec2_clean ec2 True)) = []
   \<and> filter is_mutating (calls (s3_clean s3 region True)) = []
   \<and> filter is_mutating (calls (lambda_clean lam True)) = []
   \<and> filter is_mutating (calls (cf_clean cf True)) = []
   \<and> filter is_mutating (calls (rds_clean rds True)) = []
   \<and> filter is_mutating (calls (vpc_clean vpc True)) = []
   \<and> filter is_mutating (calls (iam_clean iam True)) = []"
  by (intro conjI no_mutating ec2_dry s3_dry lambda_dry cf_dry rds_dry vpc_dry iam_dry)

subsection \<open>State checks\<close>

lemma nat_gateway_state_checked:
  "issued_only_for ''delete_nat_gateway''
     (\<lambda>x. Call ''delete_nat_gateway'' [(''NatGatewayId'', Str (NatGatewayId x))])
     (\<lambda>x. nat_State x \<notin> set [''deleting'', ''deleted''])
     (listed (describe_nat_gateways p)) (calls (vpc_clean p dry))"
  unfolding issued_only_for_all vpc_defs
  by (auto intro!: all_intros split: option.splits; fastforce)

lemma network_interface_state_checked:
  "issued_only_for ''delete_network_interface''
     (\<lambda>x. Call ''delete_network_interface'' [(''NetworkInterfaceId'', Str (NetworkInterfaceId x))])
     (\<lambda>x. eni_Status x \<notin> set [''in-use'', ''detaching'', ''deleting''])
     (listed (describe_network_interfaces p)) (calls (vpc_clean p dry))"
  unfolding issued_only_for_all vpc_defs
  by (auto intro!: all_intros split: option.splits; fastforce)

lemma vpn_connection_state_checked:
  "issued_only_for ''delete_vpn_connection''
     (\<lambda>x. Call ''delete_vpn_connection'' [(''VpnConnectionId'', Str (VpnConnectionId x))])
     (\<lambda>x. vpn_State x \<notin> set [''deleting'', ''deleted''])
     (listed (describe_vpn_connections p)) (calls (vpc_clean p dry))"
  unfolding issued_only_for_all vpc_defs
  by (auto intro!: all_intros split: option.splits; fastforce)

lemma vpn_gateway_state_checked:
  "issued_only_for ''delete_vpn_gateway''
     (\<lambda>x. Call ''delete_vpn_gateway'' [(''VpnGatewayId'', Str (VpnGatewayId x))])
     (\<lambda>x. vgw_State x \<notin> set [''deleting'', ''deleted''])
     (listed (describe_vpn_gateways p)) (calls (vpc_clean p dry))"
  unfolding issued_only_for_all vpc_defs
  by (auto intro!: all_intros split: option.splits; fastforce)

lemma tgw_attachment_state_checked:
  "issued_only_for ''delete_transit_gateway_vpc_attachment''
     (\<lambda>x. Call ''delete_transit_gateway_vpc_attachment''
             [(''TransitGatewayAttachmentId'', Str (TransitGatewayAttachmentId x))])
     (\<lambda>x. tgwa_State x \<notin> set [''deleting'', ''deleted''])
     (listed (describe_transit_gateway_attachments p)) (calls (vpc_clean p dry))"
  unfolding issued_only_for_all vpc_defs
  by (auto intro!: all_intros split: option.splits; fastforce)

lemma transit_gateway_state_checked:
  "issued_only_for ''delete_transit_gateway''
     (\<lambda>x. Call ''delete_transit_gateway'' [(''TransitGatewayId'', Str (TransitGatewayId x))])
     (\<lambda>x. tgw_State x \<notin> set [''deleting'', ''deleted''])
     (listed (describe_transit_gateways p)) (calls (vpc_clean p dry))"
  unfolding issued_only_for_all vpc_defs
  by (auto intro!: all_intros split: option.splits; fastforce)

lemma peering_state_checked:
  "issued_only_for ''delete_vpc_peering_connection''
     (\<lambda>x. Call ''delete_vpc_peering_connection''
             [(''VpcPeeringConnectionId'', Str (VpcPeeringConnectionId x))])
     (\<lambda>x. peering_status x \<notin> set [''deleted'', ''rejected'', ''failed'', ''expired''])
     (listed (describe_vpc_peering_connections p)) (calls (vpc_clean p dry))"
  unfolding issued_only_for_all vpc_defs
  by (auto intro!: all_intros split: option.splits; fastforce)

lemma instance_state_checked:
  "issued_only_for ''instance.terminate''
     (\<lambda>x. Call ''instance.terminate'' [(''id'', Str (instance_id x))])
     (\<lambda>x. instance_state_name x \<notin> set [''terminated'', ''shutting-down''])
     (items (instances_all p)) (calls (ec2_clean p dry))"
  unfolding issued_only_for_all ec2_defs
  by (auto intro!: all_intros split: option.splits; fastforce)

lemma stack_state_checked:
  "list_all (\<lambda>c. method_of c = ''delete_stack'' \<longrightarrow>
       (\<exists>s \<in> set (items (list_stacks p)).
          (\<exists>rest. c = Call ''delete_stack'' ((''StackName'', Str (StackName s)) # rest))
          \<and> StackStatus s \<noteq> ''DELETE_IN_PROGRESS''))
     (calls (cf_clean p dry))"
  unfolding cf_defs
  by (auto intro!: all_intros split: option.splits simp: Let_def; fastforce)

subsection \<open>Defaults\<close>

lemma default_vpc_kept:
  "issued_only_for ''delete_vpc'' (\<lambda>v. Call ''delete_vpc'' [(''VpcId'', Str (VpcId v))])
     (\<lambda>v. \<not> vpc_IsDefault v) (listed (describe_vpcs p)) (calls (vpc_clean p dry))"
  unfolding issued_only_for_all vpc_defs
  by (auto intro!: all_intros split: option.splits; fastforce)

lemma default_security_group_kept:
  "issued_only_for ''delete_security_group''
     (\<lambda>sg. Call ''delete_security_group'' [(''GroupId'', Str (GroupId sg))])
     (\<lambda>sg. GroupName sg \<noteq> ''default'')
     (concat (map (\<lambda>v. listed (describe_security_groups p (VpcId v))) (listed (describe_vpcs p))))
     (calls (vpc_clean p dry))"
  unfolding issued_only_for_all vpc_defs
  by (auto intro!: all_intros split: option.splits) (metis listed_Inr)

lemma default_network_acl_kept:
  "issued_only_for ''delete_network_acl''
     (\<lambda>acl. Call ''delete_network_acl'' [(''NetworkAclId'', Str (NetworkAclId acl))])
     (\<lambda>acl. \<not> acl_IsDefault acl)
     (concat (map (\<lambda>v. listed (describe_network_acls p (VpcId v))) (listed (describe_vpcs p))))
     (calls (vpc_clean p dry))"
  unfolding issued_only_for_all vpc_defs
  by (auto intro!: all_intros split: option.splits) (metis listed_Inr)

lemma ec2_default_security_group_kept:
  "issued_only_for ''delete_security_group''
     (\<lambda>sg. Call ''delete_security_group'' [(''GroupId'', Str (GroupId sg))])
     (\<lambda>sg. GroupName sg \<noteq> ''default'')
     (listed (ec2_describe_security_groups p)) (calls (ec2_clean p dry))"
  unfolding issued_only_for_all ec2_defs
  by (auto intro!: all_intros split: option.splits; fastforce)

lemma default_parameter_group_kept:
  "issued_only_for ''delete_db_parameter_group''
     (\<lambda>name. Call ''delete_db_parameter_group'' [(''DBParameterGroupName'', Str name)])
     (\<lambda>name. \<not> prefix ''default.'' name)
     (items (describe_db_parameter_groups p)) (calls (rds_clean p dry))"
  unfolding issued_only_for_all rds_defs
  by (auto intro!: all_intros split: option.splits; fastforce)

lemma default_cluster_parameter_group_kept:
  "issued_only_for ''delete_db_cluster_parameter_group''
     (\<lambda>name. Call ''delete_db_cluster_parameter_group'' [(''DBClusterParameterGroupName'', Str name)])
     (\<lambda>name. \<not> prefix ''default.'' name)
     (items (describe_db_cluster_parameter_groups p)) (calls (rds_clean p dry))"
  unfolding issued_only_for_all rds_defs
  by (auto intro!: all_intros split: option.splits; fastforce)

lemma service_role_kept:
  "issued_only_for ''delete_role'' (\<lambda>r. Call ''delete_role'' [(''RoleName'', Str (RoleName r))])
     (\<lambda>r. \<not> is_service_role r) (items (list_roles p)) (calls (iam_clean p dry))"
  unfolding issued_only_for_all iam_defs
  by (auto intro!: all_intros split: option.splits; fastforce)

lemma deleting_instance_calls:
  "calls (rds_clean deleting_instance_provider False) =
     [Call ''describe_db_instances'' [],
      Call ''delete_db_instance''
        [(''DBInstanceIdentifier'', Str ''db-1''), (''SkipFinalSnapshot'', Flag True),
         (''DeleteAutomatedBackups'', Flag True)],
      Call ''describe_db_clusters'' [], Call ''describe_db_snapshots'' [],
      Call ''describe_db_cluster_snapshots'' [], Call ''describe_db_parameter_groups'' [],
      Call ''describe_db_cluster_parameter_groups'' [], Call ''describe_db_subnet_groups'' [],
      Call ''describe_option_groups'' [], Call ''describe_event_subscriptions'' []]"
  by code_simp

text \<open>
  Claim C2, as stated, fails: the RDS cleaner reads the status of an instance for the
  log record only, and in live mode asks for the deletion of an instance whose status is
  \<open>deleting\<close>.
\<close>

theorem rds_deletes_instance_being_deleted:
  "map DBInstanceStatus (items (describe_db_instances deleting_instance_provider)) = [Some ''deleting'']
   \<and> map DBInstanceIdentifier (items (describe_db_instances deleting_instance_provider)) = [''db-1'']
   \<and> Call ''delete_db_instance''
        [(''DBInstanceIdentifier'', Str ''db-1''), (''SkipFinalSnapshot'', Flag True),
         (''DeleteAutomatedBackups'', Flag True)]
      \<in> set (calls (rds_clean deleting_instance_provider False))"
  by (simp add: deleting_instance_calls)
     (simp add: deleting_instance_provider_def empty_rds_provider_def items_def)

text \<open>
  Claim C2, amended.  Where a cleaner checks the state, the check comes before the
  call, in every mode: a NAT gateway, VPN connection, VPN gateway, transit gateway
  attachment or transit gateway is deleted only when a listed descriptor of it is neither
  \<open>deleting\<close> nor \<open>deleted\<close>; a network interface only when it is not \<open>in-use\<close>,
  \<open>detaching\<close> or \<open>deleting\<close>; a peering connection only when it is not \<open>deleted\<close>,
  \<open>rejected\<close>, \<open>failed\<close> or \<open>expired\<close>; an instance is terminated only when it is not
  \<open>terminated\<close> or \<open>shutting-down\<close>; a stack is deleted only when it is not
  \<open>DELETE_IN_PROGRESS\<close>.
\<close>

theorem state_checked_before_delete:
  "issued_only_for ''delete_nat_gateway''
     (\<lambda>x. Call ''delete_nat_gateway'' [(''NatGatewayId'', Str (NatGatewayId x))])
     (\<lambda>x. nat_State x \<notin> set [''deleting'', ''deleted''])
     (listed (describe_nat_gateways vpc)) (calls (vpc_clean vpc dry))
   \<and> issued_only_for ''delete_network_interface''
     (\<lambda>x. Call ''delete_network_interface'' [(''NetworkInterfaceId'', Str (NetworkInterfaceId x))])
     (\<lambda>x. eni_Status x \<notin> set [''in-use'', ''detaching'', ''deleting''])
     (listed (describe_network_interfaces vpc)) (calls (vpc_clean vpc dry))
   \<and> issued_only_for ''delete_vpn_connection''
     (\<lambda>x. Call ''delete_vpn_connection'' [(''VpnConnectionId'', Str (VpnConnectionId x))])
     (\<lambda>x. vpn_State x \<notin> set [''deleting'', ''deleted''])
     (listed (describe_vpn_connections vpc)) (calls (vpc_clean vpc dry))
   \<and> issued_only_for ''delete_vpn_gateway''
     (\<lambda>x. Call ''delete_vpn_gateway'' [(''VpnGatewayId'', Str (VpnGatewayId x))])
     (\<lambda>x. vgw_State x \<notin> set [''deleting'', ''deleted''])
     (listed (describe_vpn_gateways vpc)) (calls (vpc_clean vpc dry))
   \<and> issued_only_for ''delete_transit_gateway_vpc_attachment''
     (\<lambda>x. Call ''delete_transit_gateway_vpc_attachment''
             [(''TransitGatewayAttachmentId'', Str (TransitGatewayAttachmentId x))])
     (\<lambda>x. tgwa_State x \<notin> set [''deleting'', ''deleted''])
     (listed (describe_transit_gateway_attachments vpc)) (calls (vpc_clean vpc dry))
   \<and> issued_only_for ''delete_transit_gateway''
     (\<lambda>x. Call ''delete_transit_gateway'' [(''TransitGatewayId'', Str (TransitGatewayId x))])
     (\<lambda>x. tgw_State x \<notin> set [''deleting'', ''deleted''])
     (listed (describe_transit_gateways vpc)) (calls (vpc_clean vpc dry))
   \<and> issued_only_for ''delete_vpc_peering_connection''
     (\<lambda>x. Call ''delete_vpc_peering_connection''
             [(''VpcPeeringConnectionId'', Str (VpcPeeringConnectionId x))])
     (\<lambda>x. peering_status x \<notin> set [''deleted'', ''rejected'', ''failed'', ''expired''])
     (listed (describe_vpc_peering_connections vpc)) (calls (vpc_clean vpc dry))
   \<and> issued_only_for ''instance.terminate''
     (\<lambda>x. Call ''instance.terminate'' [(''id'', Str (instance_id x))])
     (\<lambda>x. instance_state_name x \<notin> set [''terminated'', ''shutting-down''])
     (items (instances_all ec2)) (calls (ec2_clean ec2 dry))
   \<and> (\<forall>c \<in> set (calls (cf_clean cf dry)). method_of c = ''delete_stack'' \<longrightarrow>
       (\<exists>s \<in> set (items (list_stacks cf)).
          (\<exists>rest. c = Call ''delete_stack'' ((''StackName'', Str (StackName s)) # rest))
          \<and> StackStatus s \<noteq> ''DELETE_IN_PROGRESS''))"
  using stack_state_checked [of cf dry]
  by (intro conjI nat_gateway_state_checked network_interface_state_checked
      vpn_connection_state_checked vpn_gateway_state_checked tgw_attachment_state_checked
      transit_gateway_state_checked peering_state_checked instance_state_checked)
     (simp add: list_all_iff)

lemma default_vpc_calls:
  "calls (vpc_clean default_vpc_provider False) =
     [Call ''describe_nat_gateways'' [],
      Call ''delete_nat_gateway'' [(''NatGatewayId'', Str ''nat-2'')],
      Call ''describe_network_interfaces'' [], Call ''describe_internet_gateways'' [],
      Call ''describe_vpn_connections'' [], Call ''describe_vpn_gateways'' [],
      Call ''describe_transit_gateway_attachments'' [], Call ''describe_transit_gateways'' [],
      Call ''describe_vpcs'' [],
      Call ''describe_route_tables'' [(''Filters'', Filter ''vpc-id'' [''vpc-default''])],
      Call ''describe_subnets'' [(''Filters'', Filter ''vpc-id'' [''vpc-default''])],
      Call ''describe_security_groups'' [(''Filters'', Filter ''vpc-id'' [''vpc-default''])],
      Call ''delete_security_group'' [(''GroupId'', Str ''sg-web-vpc-default'')],
      Call ''describe_network_acls'' [(''Filters'', Filter ''vpc-id'' [''vpc-default''])],
      Call ''delete_network_acl'' [(''NetworkAclId'', Str ''acl-1-vpc-default'')],
      Call ''describe_vpc_endpoints'' [(''Filters'', Filter ''vpc-id'' [''vpc-default''])],
      Call ''describe_route_tables'' [(''Filters'', Filter ''vpc-id'' [''vpc-1''])],
      Call ''describe_subnets'' [(''Filters'', Filter ''vpc-id'' [''vpc-1''])],
      Call ''describe_security_groups'' [(''Filters'', Filter ''vpc-id'' [''vpc-1''])],
      Call ''delete_security_group'' [(''GroupId'', Str ''sg-web-vpc-1'')],
      Call ''describe_network_acls'' [(''Filters'', Filter ''vpc-id'' [''vpc-1''])],
      Call ''delete_network_acl'' [(''NetworkAclId'', Str ''acl-1-vpc-1'')],
      Call ''describe_vpc_endpoints'' [(''Filters'', Filter ''vpc-id'' [''vpc-1''])],
      Call ''describe_vpc_peering_connections'' [],
      Call ''delete_vpc'' [(''VpcId'', Str ''vpc-1'')]]"
  by code_simp

lemma default_vpc_listings:
  "listed (describe_nat_gateways default_vpc_provider) =
     [\<lparr>NatGatewayId = ''nat-1'', nat_State = ''deleting''\<rparr>,
      \<lparr>NatGatewayId = ''nat-2'', nat_State = ''available''\<rparr>]"
  "listed (describe_vpcs default_vpc_provider) =
     [\<lparr>VpcId = ''vpc-default'', vpc_IsDefault = True\<rparr>, \<lparr>VpcId = ''vpc-1'', vpc_IsDefault = False\<rparr>]"
  by (simp_all add: default_vpc_provider_def empty_vpc_provider_def)

theorem state_checked_before_delete_witness:
  "Call ''delete_nat_gateway'' [(''NatGatewayId'', Str ''nat-1'')]
     \<notin> set (calls (vpc_clean default_vpc_provider False))
   \<and> Call ''delete_nat_gateway'' [(''NatGatewayId'', Str ''nat-2'')]
     \<in> set (calls (vpc_clean default_vpc_provider False))"
proof -
  have "issued_only_for ''delete_nat_gateway''
     (\<lambda>x. Call ''delete_nat_gateway'' [(''NatGatewayId'', Str (NatGatewayId x))])
     (\<lambda>x. nat_State x \<notin> set [''deleting'', ''deleted''])
     (listed (describe_nat_gateways default_vpc_provider))
     (calls (vpc_clean default_vpc_provider False))"
    using state_checked_before_delete [of default_vpc_provider False] by blast
  then have "Call ''delete_nat_gateway'' [(''NatGatewayId'', Str ''nat-1'')]
     \<notin> set (calls (vpc_clean default_vpc_provider False))"
    unfolding issued_only_for_def default_vpc_listings by fastforce
  moreover have "Call ''delete_nat_gateway'' [(''NatGatewayId'', Str ''nat-2'')]
     \<in> set (calls (vpc_clean default_vpc_provider False))"
    by (simp add: default_vpc_calls)
  ultimately show ?thesis by blast
qed

text \<open>
  Claim C9.  In every mode, a call that deletes a VPC, a security group (by the VPC
  cleaner or by the EC2 cleaner), a network ACL, a parameter group or cluster parameter
  group, or a role is issued only for a listed item that is not a default VPC, not
  named \<open>default\<close>, not a default ACL, not named \<open>default.\<close>\<dots>, and not on a
  service-role path: the defaults are passed over before the call.
\<close>

theorem defaults_never_deleted:
  "issued_only_for ''delete_vpc'' (\<lambda>v. Call ''delete_vpc'' [(''VpcId'', Str (VpcId v))])
     (\<lambda>v. \<not> vpc_IsDefault v) (listed (describe_vpcs vpc)) (calls (vpc_clean vpc dry))
   \<and> issued_only_for ''delete_security_group''
     (\<lambda>sg. Call ''delete_security_group'' [(''GroupId'', Str (GroupId sg))])
     (\<lambda>sg. GroupName sg \<noteq> ''default'')
     (concat (map (\<lambda>v. listed (describe_security_groups vpc (VpcId v))) (listed (describe_vpcs vpc))))
     (calls (vpc_clean vpc dry))
   \<and> issued_only_for ''delete_security_group''
     (\<lambda>sg. Call ''delete_security_group'' [(''GroupId'', Str (GroupId sg))])
     (\<lambda>sg. GroupName sg \<noteq> ''default'')
     (listed (ec2_describe_security_groups ec2)) (calls (ec2_clean ec2 dry))
   \<and> issued_only_for ''delete_network_acl''
     (\<lambda>acl. Call ''delete_network_acl'' [(''NetworkAclId'', Str (NetworkAclId acl))])
     (\<lambda>acl. \<not> acl_IsDefault acl)
     (concat (map (\<lambda>v. listed (describe_network_acls vpc (VpcId v))) (listed (describe_vpcs vpc))))
     (calls (vpc_clean vpc dry))
   \<and> issued_only_for ''delete_db_parameter_group''
     (\<lambda>name. Call ''delete_db_parameter_group'' [(''DBParameterGroupName'', Str name)])
     (\<lambda>name. \<not> prefix ''default.'' name)
     (items (describe_db_parameter_groups rds)) (calls (rds_clean rds dry))
   \<and> issued_only_for ''delete_db_cluster_parameter_group''
     (\<lambda>name. Call ''delete_db_cluster_parameter_group'' [(''DBClusterParameterGroupName'', Str name)])
     (\<lambda>name. \<not> prefix ''default.'' name)
     (items (describe_db_cluster_parameter_groups rds)) (calls (rds_clean rds dry))
   \<and> issued_only_for ''delete_role'' (\<lambda>r. Call ''delete_role'' [(''RoleName'', Str (RoleName r))])
     (\<lambda>r. \<not> is_service_role r) (items (list_roles iam)) (calls (iam_clean iam dry))"
  by (intro conjI default_vpc_kept default_security_group_kept ec2_default_security_group_kept
      default_network_acl_kept default_parameter_group_kept default_cluster_parameter_group_kept
      service_role_kept)

lemma two_roles_calls:
  "calls (iam_clean two_roles_provider False) =
     [Call ''list_account_aliases'' [], Call ''list_users'' [], Call ''list_groups'' [],
      Call ''list_roles'' [],
      Call ''list_role_policies'' [(''RoleName'', Str ''deployer'')],
      Call ''list_attached_role_policies'' [(''RoleName'', Str ''deployer'')],
      Call ''list_instance_profiles_for_role'' [(''RoleName'', Str ''deployer'')],
      Call ''delete_role'' [(''RoleName'', Str ''deployer'')],
      Call ''list_policies'' [(''Scope'', Str ''Local'')]]"
  by code_simp

lemma two_roles_listing:
  "items (list_roles two_roles_provider) =
     [\<lparr>RoleName = ''AWSServiceRoleForSupport'',
        role_Path = Some ''/aws-service-role/support.amazonaws.com/''\<rparr>,
      \<lparr>RoleName = ''deployer'', role_Path = Some ''/''\<rparr>]"
  by (simp add: two_roles_provider_def items_def)

theorem defaults_never_deleted_witness:
  "Call ''delete_vpc'' [(''VpcId'', Str ''vpc-default'')]
     \<notin> set (calls (vpc_clean default_vpc_provider False))
   \<and> Call ''delete_vpc'' [(''VpcId'', Str ''vpc-1'')]
     \<in> set (calls (vpc_clean default_vpc_provider False))
   \<and> Call ''delete_role'' [(''RoleName'', Str ''AWSServiceRoleForSupport'')]
     \<notin> set (calls (iam_clean two_roles_provider False))
   \<and> Call ''delete_role'' [(''RoleName'', Str ''deployer'')]
     \<in> set (calls (iam_clean two_roles_provider False))"
proof -
  note all = defaults_never_deleted [of default_vpc_provider False empty_ec2_provider
      empty_rds_provider two_roles_provider]
  from all have "issued_only_for ''delete_vpc'' (\<lambda>v. Call ''delete_vpc'' [(''VpcId'', Str (VpcId v))])
     (\<lambda>v. \<not> vpc_IsDefault v) (listed (describe_vpcs default_vpc_provider))
     (calls (vpc_clean default_vpc_provider False))"
    by blast
  then have a: "Call ''delete_vpc'' [(''VpcId'', Str ''vpc-default'')]
     \<notin> set (calls (vpc_clean default_vpc_provider False))"
    unfolding issued_only_for_def default_vpc_listings by fastforce
  from all have "issued_only_for ''delete_role''
     (\<lambda>r. Call ''delete_role'' [(''RoleName'', Str (RoleName r))])
     (\<lambda>r. \<not> is_service_role r) (items (list_roles two_roles_provider))
     (calls (iam_clean two_roles_provider False))"
    by blast
  then have b: "Call ''delete_role'' [(''RoleName'', Str ''AWSServiceRoleForSupport'')]
     \<notin> set (calls (iam_clean two_roles_provider False))"
    unfolding issued_only_for_def two_roles_listing
    by (fastforce simp: is_service_role_def role_path_def)
  have c: "Call ''delete_vpc'' [(''VpcId'', Str ''vpc-1'')]
     \<in> set (calls (vpc_clean default_vpc_provider False))"
    by (simp add: default_vpc_calls)
  have d: "Call ''delete_role'' [(''RoleName'', Str ''deployer'')]
     \<in> set (calls (iam_clean two_roles_provider False))"
    by (simp add: two_roles_calls)
  from a b c d show ?thesis by blast
qed

subsection \<open>Counting calls\<close>

lemma hits_and_then:
  "length (filter Q (calls (and_then m f)))
     = length (filter Q (calls m))
       + (case outcome m of Inl e \<Rightarrow> 0 | Inr x \<Rightarrow> length (filter Q (calls (f x))))"
  by (simp add: calls_and_then split: sum.splits)

lemma hits_and_then_le:
  "length (filter Q (calls m)) \<le> a
   \<Longrightarrow> (\<And>x. outcome m = Inr x \<Longrightarrow> length (filter Q (calls (f x))) \<le> b)
   \<Longrightarrow> length (filter Q (calls (and_then m f))) \<le> a + b"
  by (cases "outcome m") (auto simp: hits_and_then intro: add_mono)

lemma hits_for_each:
  "(\<And>x. x \<in> set xs \<Longrightarrow> length (filter Q (calls (body x))) \<le> w x)
   \<Longrightarrow> length (filter Q (calls (for_each body xs))) \<le> sum_list (map w xs)"
proof (induction xs)
  case Nil
  then show ?case by simp
next
  case (Cons x xs)
  have "length (filter Q (calls (and_then (body x) (\<lambda>_. for_each body xs))))
          \<le> w x + sum_list (map w xs)"
    by (rule hits_and_then_le) (simp_all add: Cons)
  then show ?case by simp
qed

lemma hits_steps:
  "length (filter Q (calls (steps ms))) \<le> sum_list (map (\<lambda>m. length (filter Q (calls m))) ms)"
  unfolding steps_def by (rule hits_for_each) simp

lemma hits_paginate_from:
  "\<not> Q c \<Longrightarrow> (\<And>x. x \<in> set (concat pages) \<Longrightarrow> length (filter Q (calls (body x))) \<le> w x)
   \<Longrightarrow> length (filter Q (calls (paginate_from c pages failure body)))
       \<le> sum_list (map w (concat pages))"
proof (induction pages)
  case Nil
  then show ?case by (simp split: option.splits)
next
  case (Cons page rest)
  have a: "length (filter Q (calls (for_each body page))) \<le> sum_list (map w page)"
    by (rule hits_for_each) (simp add: Cons.prems)
  have b: "length (filter Q (calls (paginate_from c rest failure body)))
             \<le> sum_list (map w (concat rest))"
    by (rule Cons.IH) (simp_all add: Cons.prems)
  have "length (filter Q (calls (and_then (for_each body page)
            (\<lambda>_. paginate_from c rest failure body))))
          \<le> sum_list (map w page) + sum_list (map w (concat rest))"
    by (rule hits_and_then_le) (simp_all add: a b)
  with Cons.prems(1) show ?case by (simp add: hits_and_then)
qed

lemma hits_paginate:
  "\<not> Q c \<Longrightarrow> (\<And>x. x \<in> set (items answer) \<Longrightarrow> length (filter Q (calls (body x))) \<le> w x)
   \<Longrightarrow> length (filter Q (calls (paginate c answer body))) \<le> sum_list (map w (items answer))"
  unfolding paginate_def items_def by (rule hits_paginate_from)

lemma hits_none: "list_all (\<lambda>c. \<not> Q c) cs \<Longrightarrow> length (filter Q cs) = 0"
  by (simp add: filter_empty_conv list_all_iff)

lemma sum_list_indicator:
  "sum_list (map (\<lambda>x. if f x = i then 1 else 0) xs) = count_list (map f xs) i"
  by (induction xs) simp_all

lemma count_list_concat:
  "count_list (concat xss) x = sum_list (map (\<lambda>xs. count_list xs x) xss)"
  by (induction xss) simp_all

lemma count_list_hits: "count_list cs c = length (filter (\<lambda>c'. c' = c) cs)"
  by (induction cs) simp_all

subsection \<open>The methods each step of the EC2 cleaner calls\<close>

lemma terminate_instances_methods:
  "list_all (\<lambda>c. method_of c \<in> set [''instances.all'', ''instance.terminate''])
     (calls (terminate_instances p dry))"
  unfolding ec2_defs by (auto intro!: all_intros)

lemma delete_security_groups_methods:
  "list_all (\<lambda>c. method_of c \<in> set [''describe_security_groups'', ''delete_security_group''])
     (calls (delete_security_groups p dry))"
  unfolding ec2_defs by (auto intro!: all_intros)

lemma release_addresses_methods:
  "list_all (\<lambda>c. method_of c \<in> set [''describe_addresses'', ''release_address''])
     (calls (release_addresses p dry))"
  unfolding ec2_defs by (auto intro!: all_intros split: option.splits)

lemma delete_volumes_methods:
  "list_all (\<lambda>c. method_of c \<in> set [''volumes.all'', ''volume.delete''])
     (calls (delete_volumes p dry))"
  unfolding ec2_defs by (auto intro!: all_intros)

lemma delete_snapshots_methods:
  "list_all (\<lambda>c. method_of c \<in> set [''get_caller_identity'', ''describe_snapshots'', ''delete_snapshot''])
     (calls (delete_snapshots p dry))"
  unfolding ec2_defs by (auto intro!: all_intros)

lemma deregister_images_methods:
  "list_all (\<lambda>c. method_of c \<in> set [''get_caller_identity'', ''describe_images'',
       ''deregister_image'', ''delete_snapshot''])
     (calls (deregister_images p dry))"
  unfolding ec2_defs by (auto intro!: all_intros split: option.splits)

lemma no_hits_by_method:
  "list_all (\<lambda>c. method_of c \<in> set ms) cs \<Longrightarrow> method_of t \<notin> set ms
   \<Longrightarrow> length (filter (\<lambda>c'. c' = t) cs) = 0"
  by (rule hits_none) (auto simp: list_all_iff)

lemma hits_try_client_mutate:
  "length (filter (\<lambda>c'. c' = t) (calls (try_client (mutate a c)))) = (if c = t then 1 else 0)"
  by simp

subsection \<open>Each step of the EC2 cleaner\<close>

lemma terminate_once:
  "length (filter (\<lambda>c'. c' = Call ''instance.terminate'' [(''id'', Str i)])
             (calls (terminate_instances p dry)))
     \<le> count_list (map instance_id (items (instances_all p))) i"
  unfolding terminate_instances_def calls_try_client sum_list_indicator [symmetric]
  by (rule hits_paginate) auto

lemma delete_security_group_once:
  "length (filter (\<lambda>c'. c' = Call ''delete_security_group'' [(''GroupId'', Str g)])
             (calls (delete_security_groups p dry)))
     \<le> count_list (map GroupId (listed (ec2_describe_security_groups p))) g"
proof (cases "ec2_describe_security_groups p")
  case (Inl e)
  then show ?thesis by (simp add: delete_security_groups_def hits_and_then)
next
  case (Inr sgs)
  have "length (filter (\<lambda>c'. c' = Call ''delete_security_group'' [(''GroupId'', Str g)])
          (calls (for_each (\<lambda>sg. if \<not> dry
                then try_client (mutate (ec2_answer p)
                       (Call ''delete_security_group'' [(''GroupId'', Str (GroupId sg))]))
                else ret ()) (filter (\<lambda>sg. GroupName sg \<noteq> ''default'') sgs))))
        \<le> sum_list (map (\<lambda>sg. if GroupId sg = g then 1 else 0)
             (filter (\<lambda>sg. GroupName sg \<noteq> ''default'') sgs))"
    by (rule hits_for_each) auto
  also have "\<dots> \<le> sum_list (map (\<lambda>sg. if GroupId sg = g then 1 else 0) sgs)"
    by (induction sgs) auto
  finally show ?thesis
    using Inr by (simp add: delete_security_groups_def hits_and_then sum_list_indicator)
qed


lemma release_address_once:
  "length (filter (\<lambda>c'. c' = Call ''release_address'' [(''AllocationId'', Str a)])
             (calls (release_addresses p dry)))
     \<le> count_list (map AllocationId (listed (describe_addresses p))) (Some a)"
proof (cases "describe_addresses p")
  case (Inl e)
  then show ?thesis by (simp add: release_addresses_def hits_and_then)
next
  case (Inr eips)
  have "length (filter (\<lambda>c'. c' = Call ''release_address'' [(''AllocationId'', Str a)])
          (calls (for_each (\<lambda>eip.
             case AllocationId eip of
               None \<Rightarrow> ret ()
             | Some allocation_id \<Rightarrow>
                 if allocation_id = [] then ret ()
                 else if \<not> dry
                   then try_client (mutate (ec2_answer p)
                          (Call ''release_address'' [(''AllocationId'', Str allocation_id)]))
                   else ret ()) eips)))
        \<le> sum_list (map (\<lambda>eip. if AllocationId eip = Some a then 1 else 0) eips)"
    by (rule hits_for_each) (auto split: option.splits)
  then show ?thesis
    using Inr by (simp add: release_addresses_def hits_and_then sum_list_indicator)
qed

lemma delete_volume_once:
  "length (filter (\<lambda>c'. c' = Call ''volume.delete'' [(''id'', Str v)])
             (calls (delete_volumes p dry)))
     \<le> count_list (map volume_id (items (volumes_all p))) v"
  unfolding delete_volumes_def calls_try_client sum_list_indicator [symmetric]
  by (rule hits_paginate) auto

lemma delete_snapshot_once:
  "length (filter (\<lambda>c'. c' = Call ''delete_snapshot'' [(''SnapshotId'', Str s)])
             (calls (delete_snapshots p dry)))
     \<le> count_list (map SnapshotId (owned_snapshots p)) s"
proof (cases "get_caller_identity p")
  case (Inl e)
  then show ?thesis by (simp add: delete_snapshots_def hits_and_then)
next
  case account: (Inr account_id)
  show ?thesis
  proof (cases "describe_snapshots p account_id")
    case (Inl e)
    with account show ?thesis by (simp add: delete_snapshots_def hits_and_then)
  next
    case (Inr snaps)
    have "length (filter (\<lambda>c'. c' = Call ''delete_snapshot'' [(''SnapshotId'', Str s)])
            (calls (for_each (\<lambda>snapshot.
                  if \<not> dry
                  then try_client (mutate (ec2_answer p)
                         (Call ''delete_snapshot'' [(''SnapshotId'', Str (SnapshotId snapshot))]))
                  else ret ()) snaps)))
          \<le> sum_list (map (\<lambda>snapshot. if SnapshotId snapshot = s then 1 else 0) snaps)"
      by (rule hits_for_each) auto
    then show ?thesis
      using account Inr
      by (simp add: delete_snapshots_def hits_and_then sum_list_indicator owned_snapshots_def)
  qed
qed

lemma delete_image_snapshot_hits:
  "length (filter (\<lambda>c'. c' = Call ''delete_snapshot'' [(''SnapshotId'', Str s)])
             (calls (delete_image_snapshot p bdm)))
     = (if bdm_snapshot_id bdm = Some s then 1 else 0)"
  by (simp add: delete_image_snapshot_def bdm_snapshot_id_def split: option.splits)

lemma deregister_image_snapshots:
  "length (filter (\<lambda>c'. c' = Call ''delete_snapshot'' [(''SnapshotId'', Str s)])
             (calls (deregister_images p dry)))
     \<le> count_list (concat (map image_snapshot_ids (owned_images p))) (Some s)"
proof (cases "get_caller_identity p")
  case (Inl e)
  then show ?thesis by (simp add: deregister_images_def hits_and_then)
next
  case account: (Inr account_id)
  show ?thesis
  proof (cases "describe_images p account_id")
    case (Inl e)
    with account show ?thesis by (simp add: deregister_images_def hits_and_then)
  next
    case (Inr images)
    let ?Q = "\<lambda>c'. c' = Call ''delete_snapshot'' [(''SnapshotId'', Str s)]"
    have one: "length (filter ?Q (calls (for_each (delete_image_snapshot p) (BlockDeviceMappings img))))
                 \<le> count_list (image_snapshot_ids img) (Some s)" for img
      unfolding image_snapshot_ids_def sum_list_indicator [symmetric]
      by (rule hits_for_each) (simp add: delete_image_snapshot_hits)
    have "length (filter ?Q
            (calls (for_each (\<lambda>image.
                  if \<not> dry
                  then try_client
                         (and_then (mutate (ec2_answer p)
                                      (Call ''deregister_image'' [(''ImageId'', Str (ImageId image))]))
                            (\<lambda>_. for_each (delete_image_snapshot p) (BlockDeviceMappings image)))
                  else ret ()) images)))
          \<le> sum_list (map (\<lambda>img. count_list (image_snapshot_ids img) (Some s)) images)"
      by (rule hits_for_each) (auto simp: hits_and_then one split: sum.splits)
    then show ?thesis
      using account Inr
      by (simp add: deregister_images_def hits_and_then owned_images_def count_list_concat o_def)
  qed
qed

lemma deregister_image_once:
  "length (filter (\<lambda>c'. c' = Call ''deregister_image'' [(''ImageId'', Str i)])
             (calls (deregister_images p dry)))
     \<le> count_list (map ImageId (owned_images p)) i"
proof (cases "get_caller_identity p")
  case (Inl e)
  then show ?thesis by (simp add: deregister_images_def hits_and_then)
next
  case account: (Inr account_id)
  show ?thesis
  proof (cases "describe_images p account_id")
    case (Inl e)
    with account show ?thesis by (simp add: deregister_images_def hits_and_then)
  next
    case (Inr images)
    let ?Q = "\<lambda>c'. c' = Call ''deregister_image'' [(''ImageId'', Str i)]"
    have none: "length (filter ?Q (calls (for_each (delete_image_snapshot p) bdms))) = 0" for bdms
      by (rule hits_none)
         (auto intro!: all_intros simp: delete_image_snapshot_def split: option.splits)
    have "length (filter ?Q
            (calls (for_each (\<lambda>image.
                  if \<not> dry
                  then try_client
                         (and_then (mutate (ec2_answer p)
                                      (Call ''deregister_image'' [(''ImageId'', Str (ImageId image))]))
                            (\<lambda>_. for_each (delete_image_snapshot p) (BlockDeviceMappings image)))
                  else ret ()) images)))
          \<le> sum_list (map (\<lambda>img. if ImageId img = i then 1 else 0) images)"
      by (rule hits_for_each) (use none in \<open>auto simp: calls_and_then split: sum.splits\<close>)
    then show ?thesis
      using account Inr
      by (simp add: deregister_images_def hits_and_then owned_images_def sum_list_indicator)
  qed
qed

lemma ec2_hits_split:
  "length (filter Q (calls (ec2_clean p dry)))
     \<le> length (filter Q (calls (terminate_instances p dry)))
       + length (filter Q (calls (delete_security_groups p dry)))
       + length (filter Q (calls (release_addresses p dry)))
       + length (filter Q (calls (delete_volumes p dry)))
       + length (filter Q (calls (delete_snapshots p dry)))
       + length (filter Q (calls (deregister_images p dry)))"
  using hits_steps [of Q "[terminate_instances p dry, delete_security_groups p dry,
      release_addresses p dry, delete_volumes p dry, delete_snapshots p dry,
      deregister_images p dry]"]
  by (simp add: ec2_clean_def)

lemmas ec2_methods = terminate_instances_methods delete_security_groups_methods
  release_addresses_methods delete_volumes_methods delete_snapshots_methods
  deregister_images_methods

lemma ec2_terminate_once:
  "count_list (calls (ec2_clean p dry)) (Call ''instance.terminate'' [(''id'', Str i)])
     \<le> count_list (map instance_id (items (instances_all p))) i"
  apply (subst count_list_hits)
  using ec2_hits_split [of "\<lambda>c'. c' = Call ''instance.terminate'' [(''id'', Str i)]" p dry]
    terminate_once [of i p dry]
    ec2_methods(2-6) [of p dry, THEN no_hits_by_method, of "Call ''instance.terminate'' [(''id'', Str i)]"]
  by simp

lemma ec2_delete_security_group_once:
  "count_list (calls (ec2_clean p dry)) (Call ''delete_security_group'' [(''GroupId'', Str g)])
     \<le> count_list (map GroupId (listed (ec2_describe_security_groups p))) g"
  apply (subst count_list_hits)
  using ec2_hits_split [of "\<lambda>c'. c' = Call ''delete_security_group'' [(''GroupId'', Str g)]" p dry]
    delete_security_group_once [of g p dry]
    ec2_methods(1,3-6) [of p dry, THEN no_hits_by_method, of "Call ''delete_security_group'' [(''GroupId'', Str g)]"]
  by simp

lemma ec2_release_address_once:
  "count_list (calls (ec2_clean p dry)) (Call ''release_address'' [(''AllocationId'', Str a)])
     \<le> count_list (map AllocationId (listed (describe_addresses p))) (Some a)"
  apply (subst count_list_hits)
  using ec2_hits_split [of "\<lambda>c'. c' = Call ''release_address'' [(''AllocationId'', Str a)]" p dry]
    release_address_once [of a p dry]
    ec2_methods(1-2,4-6) [of p dry, THEN no_hits_by_method, of "Call ''release_address'' [(''AllocationId'', Str a)]"]
  by simp

lemma ec2_delete_volume_once:
  "count_list (calls (ec2_clean p dry)) (Call ''volume.delete'' [(''id'', Str v)])
     \<le> count_list (map volume_id (items (volumes_all p))) v"
  apply (subst count_list_hits)
  using ec2_hits_split [of "\<lambda>c'. c' = Call ''volume.delete'' [(''id'', Str v)]" p dry]
    delete_volume_once [of v p dry]
    ec2_methods(1-3,5-6) [of p dry, THEN no_hits_by_method, of "Call ''volume.delete'' [(''id'', Str v)]"]
  by simp

lemma ec2_deregister_image_once:
  "count_list (calls (ec2_clean p dry)) (Call ''deregister_image'' [(''ImageId'', Str i)])
     \<le> count_list (map ImageId (owned_images p)) i"
  apply (subst count_list_hits)
  using ec2_hits_split [of "\<lambda>c'. c' = Call ''deregister_image'' [(''ImageId'', Str i)]" p dry]
    deregister_image_once [of i p dry]
    ec2_methods(1-5) [of p dry, THEN no_hits_by_method, of "Call ''deregister_image'' [(''ImageId'', Str i)]"]
  by simp

lemma ec2_delete_snapshot_twice:
  "count_list (calls (ec2_clean p dry)) (Call ''delete_snapshot'' [(''SnapshotId'', Str s)])
     \<le> count_list (map SnapshotId (owned_snapshots p)) s
       + count_list (concat (map image_snapshot_ids (owned_images p))) (Some s)"
  apply (subst count_list_hits)
  using ec2_hits_split [of "\<lambda>c'. c' = Call ''delete_snapshot'' [(''SnapshotId'', Str s)]" p dry]
    delete_snapshot_once [of s p dry] deregister_image_snapshots [of s p dry]
    ec2_methods(1-4) [of p dry, THEN no_hits_by_method, of "Call ''delete_snapshot'' [(''SnapshotId'', Str s)]"]
  by simp

lemma clean_stack_other_name:
  "StackName s \<noteq> n \<Longrightarrow> length (filter (deletes_stack n) (calls (clean_stack p dry s))) = 0"
  by (rule hits_none)
     (auto intro!: all_intros simp: clean_stack_def delete_failed_stack_def delete_stack_call_def Let_def)

lemma clean_stack_not_failed:
  "StackStatus s \<notin> set failed_statuses
   \<Longrightarrow> length (filter (deletes_stack n) (calls (clean_stack p dry s))) \<le> 1"
  by (simp add: clean_stack_def delete_stack_call_def)

lemma cf_delete_stack_once:
  assumes "\<forall>x \<in> set (items (list_stacks p)). StackName x = n \<longrightarrow> StackStatus x \<notin> set failed_statuses"
  shows "length (filter (deletes_stack n) (calls (cf_clean p dry)))
           \<le> count_list (map StackName (items (list_stacks p))) n"
  unfolding cf_clean_def calls_try_client sum_list_indicator [symmetric]
proof (rule hits_paginate)
  show "\<not> deletes_stack n (Call ''list_stacks'' [(''StackStatusFilter'', Strs stack_status_filters)])"
    by simp
next
  fix x assume x: "x \<in> set (items (list_stacks p))"
  show "length (filter (deletes_stack n) (calls (clean_stack p dry x)))
          \<le> (if StackName x = n then 1 else 0)"
  proof (cases "StackName x = n")
    case True
    with assms x have "StackStatus x \<notin> set failed_statuses" by blast
    then show ?thesis using True clean_stack_not_failed [of x n p dry] by simp
  next
    case False
    then show ?thesis using clean_stack_other_name [of x n p dry] by simp
  qed
qed

lemma ec2_example_calls:
  "calls (ec2_clean image_snapshot_provider False) =
  [Call ''instances.all'' [],
  Call ''instance.terminate'' [(''id'', Str ''i-2'')],
  Call ''describe_security_groups'' [],
  Call ''delete_security_group'' [(''GroupId'', Str ''sg-1'')],
  Call ''describe_addresses'' [], Call ''volumes.all'' [],
  Call ''get_caller_identity'' [],
  Call ''describe_snapshots'' [(''OwnerIds'', Strs [''123456789012''])],
  Call ''delete_snapshot'' [(''SnapshotId'', Str ''snap-1'')],
  Call ''get_caller_identity'' [],
  Call ''describe_images'' [(''Owners'', Strs [''123456789012''])],
  Call ''deregister_image'' [(''ImageId'', Str ''ami-1'')],
  Call ''delete_snapshot'' [(''SnapshotId'', Str ''snap-1'')]]"
  by code_simp

lemma ec2_example_listings:
  "map SnapshotId (owned_snapshots image_snapshot_provider) = [''snap-1'']"
  "map instance_id (items (instances_all image_snapshot_provider)) = [''i-1'', ''i-2'']"
  by (simp_all add: owned_snapshots_def image_snapshot_provider_def empty_ec2_provider_def items_def)



lemma two_stacks_items:
  "items (list_stacks two_stacks_provider) =
     [\<lparr>StackName = ''old'', StackId = ''id-old'', StackStatus = ''DELETE_IN_PROGRESS'', RootId = None\<rparr>,
      \<lparr>StackName = ''app'', StackId = ''id-app'', StackStatus = ''CREATE_COMPLETE'', RootId = None\<rparr>]"
  by (simp add: two_stacks_provider_def items_def)


subsection \<open>Actions that follow an order\<close>

lemma processing_order_append:
  assumes "processing_order xs = [] \<or> processing_order ys = []
           \<or> last (processing_order xs) \<noteq> hd (processing_order ys)"
  shows "processing_order (xs @ ys) = processing_order xs @ processing_order ys"
proof -
  have "map step_of xs = [] \<or> map step_of ys = []
        \<or> last (map step_of xs) \<noteq> hd (map step_of ys)"
    using assms by (simp add: processing_order_def)
  then show ?thesis
    unfolding processing_order_def map_append by (rule remdups_adj_append')
qed

lemma follows_ret: "follows_order (ret ()) []"
  by (simp add: follows_order_def processing_order_def)

lemma follows_and_then:
  assumes m1: "follows_order m1 o1" and m2: "follows_order m2 o2"
    and adj: "o1 = [] \<or> o2 = [] \<or> last o1 \<noteq> hd o2"
  shows "follows_order (and_then m1 (\<lambda>_. m2)) (o1 @ o2)"
proof (cases "outcome m1")
  case (Inl e)
  with m1 have "prefix (processing_order (calls m1)) o1" by (simp add: follows_order_def)
  then have "prefix (processing_order (calls m1)) (o1 @ o2)" by (rule prefix_prefix)
  with Inl show ?thesis by (simp add: follows_order_def outcome_and_then calls_and_then)
next
  case (Inr u)
  with m1 have t1: "processing_order (calls m1) = o1" by (simp add: follows_order_def)
  let ?t2 = "processing_order (calls m2)"
  from m2 have p2: "prefix ?t2 o2" by (auto simp: follows_order_def split: sum.splits)
  have "o1 = [] \<or> ?t2 = [] \<or> last o1 \<noteq> hd ?t2"
  proof (cases "o1 = [] \<or> ?t2 = []")
    case True
    then show ?thesis by blast
  next
    case False
    with p2 have "o2 \<noteq> []" and "hd ?t2 = hd o2" by (auto simp: prefix_def)
    with adj False show ?thesis by simp
  qed
  then have app: "processing_order (calls m1 @ calls m2) = o1 @ ?t2"
    using t1 by (simp add: processing_order_append)
  show ?thesis
  proof (cases "outcome m2")
    case e: (Inl e)
    with Inr app p2 show ?thesis
      by (simp add: follows_order_def outcome_and_then calls_and_then)
  next
    case r: (Inr u')
    with m2 have "?t2 = o2" by (simp add: follows_order_def)
    with Inr r app show ?thesis
      by (simp add: follows_order_def outcome_and_then calls_and_then)
  qed
qed

lemma follows_steps_Nil: "follows_order (steps []) []"
  by (simp add: steps_def follows_ret)

lemma follows_steps_Cons:
  "follows_order m o1 \<Longrightarrow> follows_order (steps ms) o2
   \<Longrightarrow> o1 = [] \<or> o2 = [] \<or> last o1 \<noteq> hd o2
   \<Longrightarrow> follows_order (steps (m # ms)) (o1 @ o2)"
  unfolding steps_def for_each.simps by (rule follows_and_then)

lemma follows_for_each:
  assumes body: "\<And>v. follows_order (body v) block"
    and block: "block \<noteq> []" "last block \<noteq> hd block"
  shows "follows_order (for_each body vs) (concat (map (\<lambda>v. block) vs))"
proof (induction vs)
  case Nil
  show ?case by (simp add: follows_ret)
next
  case (Cons v vs)
  have "follows_order (and_then (body v) (\<lambda>_. for_each body vs))
          (block @ concat (map (\<lambda>v. block) vs))"
  proof (rule follows_and_then [OF body Cons.IH])
    show "block = [] \<or> concat (map (\<lambda>v. block) vs) = []
          \<or> last block \<noteq> hd (concat (map (\<lambda>v. block) vs))"
      using block by (cases vs) simp_all
  qed
  then show ?case by simp
qed

lemma map_step_replicate:
  "list_all (\<lambda>c. step_of c = k) cs \<Longrightarrow> map step_of cs = replicate (length cs) k"
  by (induction cs) simp_all

lemma follows_single:
  assumes "list_all (\<lambda>c. step_of c = k) (calls m)"
    and "outcome m = Inr () \<Longrightarrow> calls m \<noteq> []"
  shows "follows_order m [k]"
proof -
  have po: "processing_order (calls m) = (if calls m = [] then [] else [k])"
    using assms(1) by (simp add: processing_order_def map_step_replicate remdups_adj_replicate)
  show ?thesis
  proof (cases "outcome m")
    case (Inl e)
    with po show ?thesis by (simp add: follows_order_def)
  next
    case (Inr u)
    with assms(2) po show ?thesis by (simp add: follows_order_def)
  qed
qed

lemma calls_listing_nonempty: "calls (try_client (and_then (request c r) f)) \<noteq> []"
  by (simp add: calls_and_then)

lemma step_of_Call [simp]:
  "step_of (Call name args) = (case map_of step_table name of None \<Rightarrow> OtherStep | Some s \<Rightarrow> s)"
  by (simp add: step_of_def)

subsection \<open>The steps of the VPC cleaner\<close>

lemma follows_nat_gateways: "follows_order (clean_nat_gateways p dry) [NatGateways]"
proof (rule follows_single)
  show "list_all (\<lambda>c. step_of c = NatGateways) (calls (clean_nat_gateways p dry))"
    unfolding clean_nat_gateways_def vpc_filter_def
    by (auto intro!: all_intros simp: step_table_def split: option.splits)
  show "calls (clean_nat_gateways p dry) \<noteq> []"
    unfolding clean_nat_gateways_def by (rule calls_listing_nonempty)
qed

lemma follows_network_interfaces: "follows_order (clean_network_interfaces p dry) [NetworkInterfaces]"
proof (rule follows_single)
  show "list_all (\<lambda>c. step_of c = NetworkInterfaces) (calls (clean_network_interfaces p dry))"
    unfolding clean_network_interfaces_def vpc_filter_def
    by (auto intro!: all_intros simp: step_table_def split: option.splits)
  show "calls (clean_network_interfaces p dry) \<noteq> []"
    unfolding clean_network_interfaces_def by (rule calls_listing_nonempty)
qed

lemma follows_internet_gateways: "follows_order (clean_internet_gateways p dry) [InternetGateways]"
proof (rule follows_single)
  show "list_all (\<lambda>c. step_of c = InternetGateways) (calls (clean_internet_gateways p dry))"
    unfolding clean_internet_gateways_def vpc_filter_def
    by (auto intro!: all_intros simp: step_table_def split: option.splits)
  show "calls (clean_internet_gateways p dry) \<noteq> []"
    unfolding clean_internet_gateways_def by (rule calls_listing_nonempty)
qed

lemma follows_vpn_connections: "follows_order (clean_vpn_connections p dry) [VpnConnections]"
proof (rule follows_single)
  show "list_all (\<lambda>c. step_of c = VpnConnections) (calls (clean_vpn_connections p dry))"
    unfolding clean_vpn_connections_def vpc_filter_def
    by (auto intro!: all_intros simp: step_table_def split: option.splits)
  show "calls (clean_vpn_connections p dry) \<noteq> []"
    unfolding clean_vpn_connections_def by (rule calls_listing_nonempty)
qed

lemma follows_vpn_gateways: "follows_order (clean_vpn_gateways p dry) [VpnGateways]"
proof (rule follows_single)
  show "list_all (\<lambda>c. step_of c = VpnGateways) (calls (clean_vpn_gateways p dry))"
    unfolding clean_vpn_gateways_def vpc_filter_def
    by (auto intro!: all_intros simp: step_table_def split: option.splits)
  show "calls (clean_vpn_gateways p dry) \<noteq> []"
    unfolding clean_vpn_gateways_def by (rule calls_listing_nonempty)
qed

lemma follows_tgw_attachments: "follows_order (clean_tgw_attachments p dry) [TgwAttachments]"
proof (rule follows_single)
  show "list_all (\<lambda>c. step_of c = TgwAttachments) (calls (clean_tgw_attachments p dry))"
    unfolding clean_tgw_attachments_def vpc_filter_def
    by (auto intro!: all_intros simp: step_table_def split: option.splits)
  show "calls (clean_tgw_attachments p dry) \<noteq> []"
    unfolding clean_tgw_attachments_def by (rule calls_listing_nonempty)
qed

lemma follows_transit_gateways: "follows_order (clean_transit_gateways p dry) [TransitGateways]"
proof (rule follows_single)
  show "list_all (\<lambda>c. step_of c = TransitGateways) (calls (clean_transit_gateways p dry))"
    unfolding clean_transit_gateways_def vpc_filter_def
    by (auto intro!: all_intros simp: step_table_def split: option.splits)
  show "calls (clean_transit_gateways p dry) \<noteq> []"
    unfolding clean_transit_gateways_def by (rule calls_listing_nonempty)
qed

lemma follows_route_tables: "follows_order (clean_route_tables p dry v) [RouteTables]"
proof (rule follows_single)
  show "list_all (\<lambda>c. step_of c = RouteTables) (calls (clean_route_tables p dry v))"
    unfolding clean_route_tables_def vpc_filter_def
    by (auto intro!: all_intros simp: step_table_def split: option.splits)
  show "calls (clean_route_tables p dry v) \<noteq> []"
    unfolding clean_route_tables_def by (rule calls_listing_nonempty)
qed

lemma follows_subnets: "follows_order (clean_subnets p dry v) [Subnets]"
proof (rule follows_single)
  show "list_all (\<lambda>c. step_of c = Subnets) (calls (clean_subnets p dry v))"
    unfolding clean_subnets_def vpc_filter_def
    by (auto intro!: all_intros simp: step_table_def split: option.splits)
  show "calls (clean_subnets p dry v) \<noteq> []"
    unfolding clean_subnets_def by (rule calls_listing_nonempty)
qed

lemma follows_security_groups: "follows_order (clean_security_groups p dry v) [SecurityGroups]"
proof (rule follows_single)
  show "list_all (\<lambda>c. step_of c = SecurityGroups) (calls (clean_security_groups p dry v))"
    unfolding clean_security_groups_def vpc_filter_def
    by (auto intro!: all_intros simp: step_table_def split: option.splits)
  show "calls (clean_security_groups p dry v) \<noteq> []"
    unfolding clean_security_groups_def by (rule calls_listing_nonempty)
qed

lemma follows_network_acls: "follows_order (clean_network_acls p dry v) [NetworkAcls]"
proof (rule follows_single)
  show "list_all (\<lambda>c. step_of c = NetworkAcls) (calls (clean_network_acls p dry v))"
    unfolding clean_network_acls_def vpc_filter_def
    by (auto intro!: all_intros simp: step_table_def split: option.splits)
  show "calls (clean_network_acls p dry v) \<noteq> []"
    unfolding clean_network_acls_def by (rule calls_listing_nonempty)
qed

lemma follows_vpc_endpoints: "follows_order (clean_vpc_endpoints p dry v) [VpcEndpoints]"
proof (rule follows_single)
  show "list_all (\<lambda>c. step_of c = VpcEndpoints) (calls (clean_vpc_endpoints p dry v))"
    unfolding clean_vpc_endpoints_def vpc_filter_def
    by (auto intro!: all_intros simp: step_table_def split: option.splits)
  show "calls (clean_vpc_endpoints p dry v) \<noteq> []"
    unfolding clean_vpc_endpoints_def by (rule calls_listing_nonempty)
qed

lemma follows_vpc_peerings: "follows_order (clean_vpc_peerings p dry) [PeeringConnections]"
proof (rule follows_single)
  show "list_all (\<lambda>c. step_of c = PeeringConnections) (calls (clean_vpc_peerings p dry))"
    unfolding clean_vpc_peerings_def vpc_filter_def
    by (auto intro!: all_intros simp: step_table_def split: option.splits)
  show "calls (clean_vpc_peerings p dry) \<noteq> []"
    unfolding clean_vpc_peerings_def by (rule calls_listing_nonempty)
qed

lemma follows_vpc_resources: "follows_order (clean_vpc_resources p dry v) vpc_block"
proof -
  have "follows_order (clean_vpc_resources p dry v)
          ([RouteTables] @ [Subnets] @ [SecurityGroups] @ [NetworkAcls] @ [VpcEndpoints] @ [])"
    unfolding clean_vpc_resources_def
    by (intro follows_steps_Cons follows_steps_Nil follows_route_tables follows_subnets
        follows_security_groups follows_network_acls follows_vpc_endpoints) simp_all
  then show ?thesis by (simp add: vpc_block_def)
qed

lemma for_each_ret: "(\<And>x. x \<in> set xs \<Longrightarrow> body x = ret ()) \<Longrightarrow> for_each body xs = ret ()"
  by (induction xs) (simp_all add: and_then_def ret_def outcome_def calls_def)

lemma for_each_calls_nonempty:
  "outcome (for_each body xs) = Inr () \<Longrightarrow> x \<in> set xs \<Longrightarrow> calls (body x) \<noteq> []
   \<Longrightarrow> calls (for_each body xs) \<noteq> []"
  by (induction xs) (auto simp: calls_and_then outcome_and_then split: sum.splits)

lemma follows_delete_vpcs:
  "follows_order (delete_vpcs p dry vpcs)
     (if \<not> dry \<and> list_ex (\<lambda>v. \<not> vpc_IsDefault v) vpcs then [Vpcs] else [])"
proof (cases "\<not> dry \<and> list_ex (\<lambda>v. \<not> vpc_IsDefault v) vpcs")
  case False
  then have "delete_vpcs p dry vpcs = ret ()"
    unfolding delete_vpcs_def by (intro for_each_ret) (auto simp: list_ex_iff)
  with False show ?thesis by (auto simp: follows_ret)
next
  case True
  then obtain v where v: "v \<in> set vpcs" "\<not> vpc_IsDefault v" by (auto simp: list_ex_iff)
  have "follows_order (delete_vpcs p dry vpcs) [Vpcs]"
  proof (rule follows_single)
    show "list_all (\<lambda>c. step_of c = Vpcs) (calls (delete_vpcs p dry vpcs))"
      unfolding delete_vpcs_def by (auto intro!: all_intros simp: step_table_def)
    show "calls (delete_vpcs p dry vpcs) \<noteq> []" if "outcome (delete_vpcs p dry vpcs) = Inr ()"
      using that v True unfolding delete_vpcs_def
      by (elim for_each_calls_nonempty) simp_all
  qed
  with True show ?thesis by simp
qed

subsection \<open>Client errors stay inside\<close>

lemma cce_ret: "contains_client_errors (ret x)"
  by (simp add: contains_client_errors_def)

lemma cce_try_client: "contains_client_errors (try_client m)"
  by (simp add: contains_client_errors_def try_client_def outcome_def split: sum.splits exn.splits)

lemma cce_and_then:
  "contains_client_errors m \<Longrightarrow> (\<And>x. contains_client_errors (f x))
   \<Longrightarrow> contains_client_errors (and_then m f)"
  by (auto simp: contains_client_errors_def outcome_and_then split: sum.splits exn.splits)

lemma cce_for_each:
  "(\<And>x. contains_client_errors (body x)) \<Longrightarrow> contains_client_errors (for_each body xs)"
  by (induction xs) (simp_all add: cce_ret cce_and_then)

lemma cce_steps:
  "list_all contains_client_errors ms \<Longrightarrow> contains_client_errors (steps ms)"
  unfolding steps_def by (induction ms) (simp_all add: cce_ret cce_and_then)

lemma try_client_id: "contains_client_errors m \<Longrightarrow> try_client m = m"
  by (auto simp: contains_client_errors_def try_client_def split: sum.splits exn.splits)

lemma cce_vpc_resources: "contains_client_errors (clean_vpc_resources p dry v)"
  unfolding clean_vpc_resources_def clean_route_tables_def clean_subnets_def
    clean_security_groups_def clean_network_acls_def clean_vpc_endpoints_def
  by (rule cce_steps) (simp add: cce_try_client)

lemma cce_delete_vpcs: "contains_client_errors (delete_vpcs p dry vpcs)"
  unfolding delete_vpcs_def by (rule cce_for_each) (simp add: cce_try_client cce_ret)

lemma cce_vpc_loops:
  "contains_client_errors
     (steps [for_each (clean_vpc_resources p dry) vpcs, clean_vpc_peerings p dry,
             delete_vpcs p dry vpcs])"
  by (rule cce_steps)
     (simp add: cce_for_each cce_vpc_resources cce_delete_vpcs clean_vpc_peerings_def cce_try_client)

lemma last_vpc_blocks:
  "vpcs \<noteq> [] \<Longrightarrow> last (concat (map (\<lambda>v. vpc_block) vpcs)) = VpcEndpoints"
  by (induction vpcs) (auto simp: vpc_block_def)

lemma follows_vpc_loops:
  "follows_order
     (steps [for_each (clean_vpc_resources p dry) vpcs, clean_vpc_peerings p dry,
             delete_vpcs p dry vpcs])
     (concat (map (\<lambda>v. vpc_block) vpcs) @ [PeeringConnections]
      @ (if \<not> dry \<and> list_ex (\<lambda>v. \<not> vpc_IsDefault v) vpcs then [Vpcs] else []) @ [])"
proof (intro follows_steps_Cons follows_steps_Nil follows_for_each follows_vpc_resources
    follows_vpc_peerings follows_delete_vpcs)
  show "vpc_block \<noteq> []" and "last vpc_block \<noteq> hd vpc_block"
    by (simp_all add: vpc_block_def)
  show "(if \<not> dry \<and> list_ex (\<lambda>v. \<not> vpc_IsDefault v) vpcs then [Vpcs] else []) = [] \<or> [] = []
        \<or> last (if \<not> dry \<and> list_ex (\<lambda>v. \<not> vpc_IsDefault v) vpcs then [Vpcs] else []) \<noteq> hd []"
    by simp
  show "[PeeringConnections] = []
        \<or> (if \<not> dry \<and> list_ex (\<lambda>v. \<not> vpc_IsDefault v) vpcs then [Vpcs] else []) @ [] = []
        \<or> last [PeeringConnections]
            \<noteq> hd ((if \<not> dry \<and> list_ex (\<lambda>v. \<not> vpc_IsDefault v) vpcs then [Vpcs] else []) @ [])"
    by simp
  show "concat (map (\<lambda>v. vpc_block) vpcs) = []
        \<or> [PeeringConnections]
            @ (if \<not> dry \<and> list_ex (\<lambda>v. \<not> vpc_IsDefault v) vpcs then [Vpcs] else []) @ [] = []
        \<or> last (concat (map (\<lambda>v. vpc_block) vpcs))
            \<noteq> hd ([PeeringConnections]
                   @ (if \<not> dry \<and> list_ex (\<lambda>v. \<not> vpc_IsDefault v) vpcs then [Vpcs] else []) @ [])"
    by (cases vpcs) (simp_all add: last_vpc_blocks del: concat.simps list.map)
qed

lemma follows_clean_vpcs:
  "follows_order (clean_vpcs p dry)
     ([VpcListing] @
      (case describe_vpcs p of
         Inl e \<Rightarrow> []
       | Inr vpcs \<Rightarrow>
           if vpcs = [] then []
           else concat (map (\<lambda>v. vpc_block) vpcs) @ [PeeringConnections]
                @ (if \<not> dry \<and> list_ex (\<lambda>v. \<not> vpc_IsDefault v) vpcs then [Vpcs] else [])))"
proof (cases "describe_vpcs p")
  case (Inl e)
  have "follows_order (clean_vpcs p dry) [VpcListing]"
  proof (rule follows_single)
    show "list_all (\<lambda>c. step_of c = VpcListing) (calls (clean_vpcs p dry))"
      using Inl by (simp add: clean_vpcs_def calls_and_then step_table_def)
    show "calls (clean_vpcs p dry) \<noteq> []"
      unfolding clean_vpcs_def by (rule calls_listing_nonempty)
  qed
  with Inl show ?thesis by simp
next
  case (Inr vpcs)
  show ?thesis
  proof (cases "vpcs = []")
    case True
    have "follows_order (clean_vpcs p dry) [VpcListing]"
    proof (rule follows_single)
      show "list_all (\<lambda>c. step_of c = VpcListing) (calls (clean_vpcs p dry))"
        using Inr True by (simp add: clean_vpcs_def calls_and_then step_table_def)
      show "calls (clean_vpcs p dry) \<noteq> []"
        unfolding clean_vpcs_def by (rule calls_listing_nonempty)
    qed
    with Inr True show ?thesis by simp
  next
    case False
    let ?loops = "steps [for_each (clean_vpc_resources p dry) vpcs, clean_vpc_peerings p dry,
                         delete_vpcs p dry vpcs]"
    let ?rest = "concat (map (\<lambda>v. vpc_block) vpcs) @ [PeeringConnections]
      @ (if \<not> dry \<and> list_ex (\<lambda>v. \<not> vpc_IsDefault v) vpcs then [Vpcs] else []) @ []"
    let ?listing = "and_then (request (Call ''describe_vpcs'' []) (Inr vpcs)) (\<lambda>_. ret ())"
    have listing: "follows_order ?listing [VpcListing]"
      by (rule follows_single) (simp_all add: calls_and_then step_table_def)
    have eq: "and_then (request (Call ''describe_vpcs'' []) (describe_vpcs p))
                (\<lambda>vpcs. if vpcs = [] then ret ()
                        else steps [for_each (clean_vpc_resources p dry) vpcs,
                                    clean_vpc_peerings p dry, delete_vpcs p dry vpcs])
              = and_then ?listing (\<lambda>_. ?loops)"
      using Inr False
      by (simp add: and_then_def request_def ret_def outcome_def calls_def)
    have adj: "[VpcListing] = [] \<or> ?rest = [] \<or> last [VpcListing] \<noteq> hd ?rest"
      using False by (cases vpcs) (simp_all add: vpc_block_def)
    have body: "follows_order (and_then ?listing (\<lambda>_. ?loops)) ([VpcListing] @ ?rest)"
      by (rule follows_and_then [OF listing follows_vpc_loops adj])
    have "contains_client_errors (and_then ?listing (\<lambda>_. ?loops))"
      by (intro cce_and_then cce_vpc_loops)
         (simp add: contains_client_errors_def outcome_and_then)
    then have "clean_vpcs p dry = and_then ?listing (\<lambda>_. ?loops)"
      unfolding clean_vpcs_def eq by (rule try_client_id)
    with body Inr False show ?thesis by simp
  qed
qed

lemma follows_vpc_body: "follows_order (vpc_body p dry) (expected_order p dry)"
proof -
  have "follows_order (vpc_body p dry)
          ([NatGateways] @ [NetworkInterfaces] @ [InternetGateways] @ [VpnConnections]
           @ [VpnGateways] @ [TgwAttachments] @ [TransitGateways]
           @ ([VpcListing] @
              (case describe_vpcs p of
                 Inl e \<Rightarrow> []
               | Inr vpcs \<Rightarrow>
                   if vpcs = [] then []
                   else concat (map (\<lambda>v. vpc_block) vpcs) @ [PeeringConnections]
                        @ (if \<not> dry \<and> list_ex (\<lambda>v. \<not> vpc_IsDefault v) vpcs then [Vpcs] else [])))
           @ [])"
    unfolding vpc_body_def
    by (intro follows_steps_Cons follows_steps_Nil follows_nat_gateways follows_network_interfaces
        follows_internet_gateways follows_vpn_connections follows_vpn_gateways
        follows_tgw_attachments follows_transit_gateways follows_clean_vpcs) simp_all
  then show ?thesis by (simp add: expected_order_def first_steps_def)
qed

lemma expected_prefix_vpc_order:
  "prefix (expected_order p dry) (vpc_order (listed (describe_vpcs p)))"
  by (auto simp: expected_order_def vpc_order_def listed_def split: sum.splits)

lemma two_vpcs_order:
  "processing_order (calls (vpc_clean two_vpcs_provider False)) =
     [NatGateways, NetworkInterfaces, InternetGateways, VpnConnections, VpnGateways,
      TgwAttachments, TransitGateways, VpcListing,
      RouteTables, Subnets, SecurityGroups, NetworkAcls, VpcEndpoints,
      RouteTables, Subnets, SecurityGroups, NetworkAcls, VpcEndpoints,
      PeeringConnections, Vpcs]"
  by code_simp



lemma two_vpcs_outcome: "outcome (vpc_body two_vpcs_provider False) = Inr ()"
  by code_simp

lemma two_vpcs_expected:
  "expected_order two_vpcs_provider False =
     [NatGateways, NetworkInterfaces, InternetGateways, VpnConnections, VpnGateways,
      TgwAttachments, TransitGateways, VpcListing,
      RouteTables, Subnets, SecurityGroups, NetworkAcls, VpcEndpoints,
      RouteTables, Subnets, SecurityGroups, NetworkAcls, VpcEndpoints,
      PeeringConnections, Vpcs]"
  by (simp add: expected_order_def two_vpcs_provider_def empty_vpc_provider_def first_steps_def
      vpc_block_def)


end
